theory Spec2Isabelle
  imports Complex_Main "HOL-Library.Sublist"
begin

section \<open>Strings\<close>

text \<open>
  A Python \<^verbatim>\<open>str\<close> is a sequence of Unicode code points; it is modelled as a list of
  integers, so that \<^verbatim>\<open>len\<close> is \<^const>\<open>length\<close>. ASCII literals are written with
  \<open>ascii\<close>; other characters are given by their code point (176 is the degree sign,
  181 the micro sign, 937 the capital omega, 92 the backslash).
\<close>

type_synonym pystr = "int list"

definition ascii :: "string \<Rightarrow> pystr" where
  "ascii s = map of_char s"

text \<open>\<^verbatim>\<open>s.startswith(p)\<close>\<close>

definition startswith :: "pystr \<Rightarrow> pystr \<Rightarrow> bool" where
  "startswith s p = (take (length p) s = p)"

text \<open>
  \<^verbatim>\<open>str.isspace\<close> on one character: the white-space code points of CPython
  (\<^verbatim>\<open>Py_UNICODE_ISSPACE\<close>). Both \<^verbatim>\<open>str.strip\<close> and the class \<^verbatim>\<open>\s\<close> of the
  regular expressions use it.
\<close>

definition space_chars :: "int list" where
  "space_chars = [9, 10, 11, 12, 13, 28, 29, 30, 31, 32, 133, 160, 5760,
     8192, 8193, 8194, 8195, 8196, 8197, 8198, 8199, 8200, 8201, 8202,
     8232, 8233, 8239, 8287, 12288]"

definition isspace :: "int \<Rightarrow> bool" where
  "isspace c = (c \<in> set space_chars)"

text \<open>
  The decimal digits (\<^verbatim>\<open>str.isdecimal\<close>, the class \<^verbatim>\<open>\d\<close>) are the code points of general
  category Nd. They come in blocks of ten consecutive code points; the list holds the
  zero of each block (Unicode 14, the version of CPython 3.11).
\<close>

definition decimal_zeros :: "int list" where
  "decimal_zeros = [48, 1632, 1776, 1984, 2406, 2534, 2662, 2790, 2918, 3046, 3174, 3302,
     3430, 3558, 3664, 3792, 3872, 4160, 4240, 6112, 6160, 6470, 6608, 6784, 6800, 6992,
     7088, 7232, 7248, 42528, 43216, 43264, 43472, 43504, 43600, 44016, 65296, 66720, 68912,
     69734, 69872, 69942, 70096, 70384, 70736, 70864, 71248, 71360, 71472, 71904, 72016,
     72784, 73040, 73120, 92768, 92864, 93008, 120782, 120792, 120802, 120812, 120822,
     123200, 123632, 125264, 130032]"

definition decimal_value :: "int \<Rightarrow> int option" where
  "decimal_value c =
     (case List.find (\<lambda>z. z \<le> c \<and> c \<le> z + 9) decimal_zeros of
        None \<Rightarrow> None | Some z \<Rightarrow> Some (c - z))"

definition isdecimal :: "int \<Rightarrow> bool" where
  "isdecimal c = (decimal_value c \<noteq> None)"

text \<open>\<^verbatim>\<open>s.strip()\<close>\<close>

definition strip :: "pystr \<Rightarrow> pystr" where
  "strip s = rev (dropWhile isspace (rev (dropWhile isspace s)))"

text \<open>\<^verbatim>\<open>s.split(c)\<close> for a separator of one character: the result is never empty.\<close>

fun split_on :: "int \<Rightarrow> pystr \<Rightarrow> pystr list" where
  "split_on c [] = [[]]"
| "split_on c (x # xs) =
     (if x = c then [] # split_on c xs
      else (case split_on c xs of [] \<Rightarrow> [[x]] | p # ps \<Rightarrow> (x # p) # ps))"

text \<open>\<^verbatim>\<open>s.replace(a, b)\<close> for single characters.\<close>

definition replace_char :: "int \<Rightarrow> int \<Rightarrow> pystr \<Rightarrow> pystr" where
  "replace_char a b s = map (\<lambda>c. if c = a then b else c) s"

text \<open>\<^verbatim>\<open>s[a:b]\<close> for \<open>0 \<le> a\<close> and \<open>0 \<le> b\<close>.\<close>

definition slice :: "pystr \<Rightarrow> nat \<Rightarrow> nat \<Rightarrow> pystr" where
  "slice s a b = take (b - a) (drop a s)"

text \<open>\<^verbatim>\<open>d.get(k, default)\<close> on a dictionary given by its items.\<close>

definition dict_get :: "('k \<times> 'v) list \<Rightarrow> 'k \<Rightarrow> 'v \<Rightarrow> 'v" where
  "dict_get d k dflt = (case map_of d k of Some v \<Rightarrow> v | None \<Rightarrow> dflt)"

text \<open>The number written by a string of decimal digits.\<close>

definition digits_value :: "pystr \<Rightarrow> int" where
  "digits_value s =
     foldl (\<lambda>a c. 10 * a + (case decimal_value c of None \<Rightarrow> 0 | Some d \<Rightarrow> d)) 0 s"

text \<open>
  \<^verbatim>\<open>int(s)\<close> on a string that, once stripped, consists of decimal digits; \<open>None\<close> stands
  for \<^verbatim>\<open>ValueError\<close>.
\<close>

definition py_int :: "pystr \<Rightarrow> int option" where
  "py_int s =
     (let t = strip s
      in if t \<noteq> [] \<and> (\<forall>c \<in> set t. isdecimal c)
         then Some (digits_value t)
         else None)"

text \<open>
  Truth value of an optional string in a condition: \<^verbatim>\<open>None\<close> and the empty string
  are false.
\<close>

fun truthy_str :: "pystr option \<Rightarrow> bool" where
  "truthy_str None = False"
| "truthy_str (Some s) = (s \<noteq> [])"


section \<open>Regular expressions (the module re)\<close>

text \<open>
  The matcher of CPython is a backtracking matcher: alternatives and repetition counts
  are tried in a fixed order and the first complete match wins. A pattern is a list of
  items to be matched in sequence.
\<close>

subsection \<open>Character classes\<close>

text \<open>
  With \<^verbatim>\<open>IGNORECASE\<close>, a character of the text matches a letter of the pattern when one
  of its case variants does. Besides the two cases of the ASCII letters, four characters
  have an ASCII variant: 304 and 305 (dotted capital I, dotless i) go with i, 383 (long s)
  with s, 8490 (Kelvin sign) with k.
\<close>

definition case_variants :: "int \<Rightarrow> int list" where
  "case_variants c =
     (if 65 \<le> c \<and> c \<le> 90 then [c + 32, c]
      else if 97 \<le> c \<and> c \<le> 122 then [c, c - 32]
      else if c = 304 \<or> c = 305 then [105, 73]
      else if c = 383 then [115, 83]
      else if c = 8490 then [107, 75]
      else [c])"

datatype cset = Ch int | Rng int int | Digit | Space

fun in_cset :: "bool \<Rightarrow> cset \<Rightarrow> int \<Rightarrow> bool" where
  "in_cset ic (Ch x) c = (if ic then x \<in> set (case_variants c) else c = x)"
| "in_cset ic (Rng a b) c =
     (if ic then (\<exists>v \<in> set (case_variants c). a \<le> v \<and> v \<le> b) else a \<le> c \<and> c \<le> b)"
| "in_cset ic Digit c = isdecimal c"
| "in_cset ic Space c = isspace c"

datatype cclass = OneOf "cset list" | NoneOf "cset list"

fun in_class :: "bool \<Rightarrow> cclass \<Rightarrow> int \<Rightarrow> bool" where
  "in_class ic (OneOf items) c = (\<exists>i \<in> set items. in_cset ic i c)"
| "in_class ic (NoneOf items) c = (\<not> (\<exists>i \<in> set items. in_cset ic i c))"

subsection \<open>Patterns and the matcher\<close>

text \<open>
  \<open>Char\<close> matches one character of a class; \<open>Rep cl lo hi greedy\<close> repeats a class
  between \<open>lo\<close> and \<open>hi\<close> times (\<open>None\<close>: unbounded), longest first when greedy and
  shortest first otherwise; \<open>Open g\<close> and \<open>Close g\<close> delimit the capture group \<open>g\<close>;
  \<open>Alt a b\<close> tries \<open>a\<close>, then \<open>b\<close>; \<open>Bol\<close> and \<open>Eol\<close> are \<^verbatim>\<open>^\<close> and \<^verbatim>\<open>$\<close>;
  \<open>NotAhead cl\<close> is the negative lookahead \<^verbatim>\<open>(?![...])\<close> for one character.
\<close>

datatype rx =
    Char cclass
  | Rep cclass nat "nat option" bool
  | Open nat
  | Close nat
  | Alt "rx list" "rx list"
  | Bol
  | Eol
  | NotAhead cclass

record flags =
  ignorecase :: bool
  multiline :: bool

text \<open>
  The state of a match in progress: the position in the text, the character before it
  (\<open>None\<close> at the start of the text), the text from the position on, the start of each
  group that has been opened, and the span (start and end position) of each group that
  has been closed, the latest first.
\<close>

type_synonym spans = "(nat \<times> nat \<times> nat) list"

record mstate =
  m_pos :: nat
  m_prev :: "int option"
  m_rest :: pystr
  m_opens :: "(nat \<times> nat) list"
  m_spans :: spans

fun first_some :: "('a \<Rightarrow> 'b option) \<Rightarrow> 'a list \<Rightarrow> 'b option" where
  "first_some f [] = None"
| "first_some f (x # xs) = (case f x of Some r \<Rightarrow> Some r | None \<Rightarrow> first_some f xs)"

definition run_length :: "bool \<Rightarrow> cclass \<Rightarrow> nat option \<Rightarrow> pystr \<Rightarrow> nat" where
  "run_length ic cl hi rest =
     (let n = length (takeWhile (in_class ic cl) rest)
      in case hi of None \<Rightarrow> n | Some h \<Rightarrow> min h n)"

text \<open>Moving over \<open>k\<close> characters of the remaining text (or to its end).\<close>

fun advance :: "nat \<Rightarrow> mstate \<Rightarrow> mstate" where
  "advance 0 s = s"
| "advance (Suc k) s =
     (case m_rest s of
        [] \<Rightarrow> s
      | c # cs \<Rightarrow> advance k (s\<lparr>m_pos := m_pos s + 1, m_prev := Some c, m_rest := cs\<rparr>))"

text \<open>
  \<open>rx_match fl fb rs s\<close> matches the items \<open>rs\<close> from the state \<open>s\<close> on. The position
  \<open>fb\<close>, when given, is one at which the match must not end: \<^verbatim>\<open>finditer\<close> uses it after
  an empty match. Without \<^verbatim>\<open>MULTILINE\<close>, \<^verbatim>\<open>^\<close> matches at the start of the text and \<^verbatim>\<open>$\<close> at
  its end or before a final newline (10); with it, they match after and before every
  newline as well.
\<close>

fun rx_match :: "flags \<Rightarrow> nat option \<Rightarrow> rx list \<Rightarrow> mstate \<Rightarrow> mstate option" where
  "rx_match fl fb [] s = (if fb = Some (m_pos s) then None else Some s)"
| "rx_match fl fb (Char cl # rs) s =
     (case m_rest s of
        [] \<Rightarrow> None
      | c # cs \<Rightarrow> if in_class (ignorecase fl) cl c then rx_match fl fb rs (advance 1 s) else None)"
| "rx_match fl fb (Rep cl lo hi greedy # rs) s =
     (let n = run_length (ignorecase fl) cl hi (m_rest s);
          counts = (if greedy then rev [lo ..< Suc n] else [lo ..< Suc n])
      in first_some (\<lambda>k. rx_match fl fb rs (advance k s)) counts)"
| "rx_match fl fb (Open g # rs) s = rx_match fl fb rs (s\<lparr>m_opens := (g, m_pos s) # m_opens s\<rparr>)"
| "rx_match fl fb (Close g # rs) s =
     (case map_of (m_opens s) g of
        None \<Rightarrow> rx_match fl fb rs s
      | Some b \<Rightarrow> rx_match fl fb rs (s\<lparr>m_spans := (g, b, m_pos s) # m_spans s\<rparr>))"
| "rx_match fl fb (Alt a b # rs) s =
     (case rx_match fl fb (a @ rs) s of
        Some r \<Rightarrow> Some r
      | None \<Rightarrow> rx_match fl fb (b @ rs) s)"
| "rx_match fl fb (Bol # rs) s =
     (if m_prev s = None \<or> (multiline fl \<and> m_prev s = Some 10) then rx_match fl fb rs s else None)"
| "rx_match fl fb (Eol # rs) s =
     (case m_rest s of
        [] \<Rightarrow> rx_match fl fb rs s
      | c # cs \<Rightarrow> if c = 10 \<and> (multiline fl \<or> cs = []) then rx_match fl fb rs s else None)"
| "rx_match fl fb (NotAhead cl # rs) s =
     (case m_rest s of
        [] \<Rightarrow> rx_match fl fb rs s
      | c # cs \<Rightarrow> if in_class (ignorecase fl) cl c then None else rx_match fl fb rs s)"

text \<open>
  A match consumes a part of the remaining text and never ends at a forbidden position.
\<close>

lemma first_some_SomeD: "first_some f xs = Some r \<Longrightarrow> \<exists>x \<in> set xs. f x = Some r"
  by (induction xs) (auto split: option.splits)

lemma run_length_le: "run_length ic cl hi rest \<le> length rest"
proof -
  have "length (takeWhile (in_class ic cl) rest) \<le> length rest"
    by (rule length_takeWhile_le)
  then show ?thesis
    by (auto simp: run_length_def Let_def split: option.splits)
qed

lemma advance_rest: "k \<le> length (m_rest s) \<Longrightarrow>
    length (m_rest (advance k s)) + k = length (m_rest s) \<and> m_pos (advance k s) = m_pos s + k"
proof (induction k arbitrary: s)
  case 0
  then show ?case by simp
next
  case (Suc k)
  then obtain c cs where cc: "m_rest s = c # cs" by (cases "m_rest s") auto
  with Suc.prems Suc.IH [of "s\<lparr>m_pos := m_pos s + 1, m_prev := Some c, m_rest := cs\<rparr>"]
  show ?case by simp
qed

lemma advance_one:
  "m_rest s = c # cs \<Longrightarrow>
   advance 1 s = s\<lparr>m_pos := m_pos s + 1, m_prev := Some c, m_rest := cs\<rparr>"
  by (simp add: numeral_eq_Suc)

lemma rx_match_consumes:
  "rx_match fl fb rs s = Some r \<Longrightarrow>
     m_pos r + length (m_rest r) = m_pos s + length (m_rest s) \<and> m_pos s \<le> m_pos r \<and>
     fb \<noteq> Some (m_pos r)"
proof (induction fl fb rs s arbitrary: r rule: rx_match.induct)
  case (1 fl fb s)
  then show ?case by (auto split: if_splits)
next
  case (2 fl fb cl rs s)
  then obtain c cs where cc: "m_rest s = c # cs" "in_class (ignorecase fl) cl c"
    and m: "rx_match fl fb rs (advance 1 s) = Some r"
    by (auto split: list.splits if_splits)
  from "2.IH" [OF cc(1) cc(2) m] advance_rest [of 1 s] cc(1) show ?case
    by auto
next
  case (3 fl fb cl lo hi greedy rs s)
  define n where "n = run_length (ignorecase fl) cl hi (m_rest s)"
  define counts where "counts = (if greedy then rev [lo ..< Suc n] else [lo ..< Suc n])"
  from "3.prems" have "first_some (\<lambda>k. rx_match fl fb rs (advance k s)) counts = Some r"
    by (simp only: rx_match.simps Let_def n_def counts_def)
  then obtain k where k: "k \<in> set counts" "rx_match fl fb rs (advance k s) = Some r"
    by (auto dest: first_some_SomeD)
  from k(1) have "k \<le> n" by (auto simp: counts_def split: if_splits)
  then have kl: "k \<le> length (m_rest s)"
    using run_length_le [of "ignorecase fl" cl hi "m_rest s"] by (simp add: n_def)
  from "3.IH" [OF n_def counts_def k(2)] advance_rest [OF kl] show ?case
    by auto
next
  case (4 fl fb g rs s)
  then show ?case by fastforce
next
  case (5 fl fb g rs s)
  then show ?case by (fastforce split: option.splits)
next
  case (6 fl fb a b rs s)
  then show ?case by (auto split: option.splits)
next
  case (7 fl fb rs s)
  then show ?case by (auto split: if_splits)
next
  case (8 fl fb rs s)
  then show ?case by (auto split: list.splits if_splits)
next
  case (9 fl fb cl rs s)
  then show ?case by (auto split: list.splits if_splits)
qed

text \<open>
  Searching tries every start position from left to right. Only the first attempt is
  subject to the forbidden end position.
\<close>

function rx_search_from :: "flags \<Rightarrow> nat option \<Rightarrow> rx list \<Rightarrow> mstate \<Rightarrow> (nat \<times> mstate) option" where
  "rx_search_from fl fb rs s =
     (case rx_match fl fb rs s of
        Some r \<Rightarrow> Some (m_pos s, r)
      | None \<Rightarrow>
          (case m_rest s of
             [] \<Rightarrow> None
           | c # cs \<Rightarrow> rx_search_from fl None rs (advance 1 s)))"
  by pat_completeness auto
termination
  by (relation "measure (\<lambda>(fl, fb, rs, s). length (m_rest s))") (auto simp: advance_one)

declare rx_search_from.simps [simp del]

lemma rx_search_from_consumes:
  "rx_search_from fl fb rs s = Some (b, r) \<Longrightarrow>
     m_pos r + length (m_rest r) = m_pos s + length (m_rest s) \<and> m_pos s \<le> b \<and> b \<le> m_pos r \<and>
     (fb = Some (m_pos s) \<longrightarrow> m_pos r \<noteq> m_pos s)"
proof (induction fl fb rs s rule: rx_search_from.induct)
  case (1 fl fb rs s)
  show ?case
  proof (cases "rx_match fl fb rs s")
    case (Some r')
    with "1.prems" have "r' = r" "b = m_pos s"
      by (auto simp: rx_search_from.simps [of fl fb rs s])
    with Some rx_match_consumes [of fl fb rs s r] show ?thesis by auto
  next
    case None
    with "1.prems" obtain c cs where cc: "m_rest s = c # cs"
      and m: "rx_search_from fl None rs (advance 1 s) = Some (b, r)"
      by (auto simp: rx_search_from.simps [of fl fb rs s] split: list.splits)
    from "1.IH" [OF None cc m] advance_rest [of 1 s] cc show ?thesis
      by auto
  qed
qed

text \<open>
  \<^verbatim>\<open>finditer\<close> resumes the search where the previous match ended; after an empty match the
  next match must not be empty at the same position.
\<close>

function finditer_from :: "flags \<Rightarrow> rx list \<Rightarrow> mstate \<Rightarrow> bool \<Rightarrow> (nat \<times> mstate) list" where
  "finditer_from fl rs s must_advance =
     (case rx_search_from fl (if must_advance then Some (m_pos s) else None) rs s of
        None \<Rightarrow> []
      | Some (b, r) \<Rightarrow>
          (b, r) # finditer_from fl rs (r\<lparr>m_opens := [], m_spans := []\<rparr>) (m_pos r = b))"
  by pat_completeness auto
termination
proof (relation "measure (\<lambda>(fl, rs, s, adv). 2 * length (m_rest s) + (if adv then 0 else 1))",
    goal_cases)
  case 1
  show ?case by simp
next
  case (2 fl rs s must_advance x b r)
  from rx_search_from_consumes [of fl "if must_advance then Some (m_pos s) else None" rs s b r] 2
  have "m_pos r + length (m_rest r) = m_pos s + length (m_rest s)" "m_pos s \<le> b" "b \<le> m_pos r"
    "must_advance \<longrightarrow> m_pos r \<noteq> m_pos s"
    by auto
  then show ?case
    by (cases must_advance; cases "m_pos r = b") auto
qed

declare finditer_from.simps [simp del]

subsection \<open>Match objects\<close>

record match =
  mt_start :: nat
  mt_end :: nat
  mt_spans :: spans
  mt_ngroups :: nat
  mt_string :: pystr

fun group_count :: "rx list \<Rightarrow> nat" where
  "group_count [] = 0"
| "group_count (Open g # rs) = max g (group_count rs)"
| "group_count (Alt a b # rs) = max (max (group_count a) (group_count b)) (group_count rs)"
| "group_count (r # rs) = group_count rs"

definition initial :: "pystr \<Rightarrow> mstate" where
  "initial s = \<lparr>m_pos = 0, m_prev = None, m_rest = s, m_opens = [], m_spans = []\<rparr>"

definition mk_match :: "rx list \<Rightarrow> pystr \<Rightarrow> nat \<times> mstate \<Rightarrow> match" where
  "mk_match rs s br =
     \<lparr>mt_start = fst br, mt_end = m_pos (snd br), mt_spans = m_spans (snd br),
      mt_ngroups = group_count rs, mt_string = s\<rparr>"

definition re_search :: "flags \<Rightarrow> rx list \<Rightarrow> pystr \<Rightarrow> match option" where
  "re_search fl rs s = map_option (mk_match rs s) (rx_search_from fl None rs (initial s))"

definition re_match :: "flags \<Rightarrow> rx list \<Rightarrow> pystr \<Rightarrow> match option" where
  "re_match fl rs s = map_option (\<lambda>r. mk_match rs s (0, r)) (rx_match fl None rs (initial s))"

definition re_finditer :: "flags \<Rightarrow> rx list \<Rightarrow> pystr \<Rightarrow> match list" where
  "re_finditer fl rs s = map (mk_match rs s) (finditer_from fl rs (initial s) False)"

text \<open>
  \<^verbatim>\<open>m.group(g)\<close> for a group \<open>g\<close> of the pattern: \<open>None\<close> when the group took no part in the
  match.
\<close>

definition group_of :: "match \<Rightarrow> nat \<Rightarrow> pystr option" where
  "group_of m g =
     (case map_of (mt_spans m) g of
        None \<Rightarrow> None
      | Some (b, e) \<Rightarrow> Some (slice (mt_string m) b e))"

subsection \<open>Writing patterns\<close>

definition lit :: "int \<Rightarrow> rx" where
  "lit c = Char (OneOf [Ch c])"

definition lits :: "string \<Rightarrow> rx list" where
  "lits s = map (\<lambda>c. lit (of_char c)) s"

definition chars :: "string \<Rightarrow> cset list" where
  "chars s = map (\<lambda>c. Ch (of_char c)) s"

definition between :: "char \<Rightarrow> char \<Rightarrow> cset" where
  "between a b = Rng (of_char a) (of_char b)"

definition star :: "cclass \<Rightarrow> rx" where
  "star cl = Rep cl 0 None True"

definition plus :: "cclass \<Rightarrow> rx" where
  "plus cl = Rep cl 1 None True"

definition lazy_plus :: "cclass \<Rightarrow> rx" where
  "lazy_plus cl = Rep cl 1 None False"

definition opt :: "cclass \<Rightarrow> rx" where
  "opt cl = Rep cl 0 (Some 1) True"

definition group :: "nat \<Rightarrow> rx list \<Rightarrow> rx list" where
  "group g body = Open g # body @ [Close g]"

fun alts :: "rx list list \<Rightarrow> rx list" where
  "alts [] = []"
| "alts [a] = a"
| "alts (a # b # bs) = [Alt a (alts (b # bs))]"

definition optional :: "rx list \<Rightarrow> rx list" where
  "optional body = [Alt body []]"

subsection \<open>Static properties of patterns\<close>

text \<open>
  \<open>closes g rs\<close>: every way through \<open>rs\<close> passes a \<open>Close g\<close>;
  \<open>always_captures g rs\<close>: every way through \<open>rs\<close> opens the group \<open>g\<close> and closes it;
  \<open>consumes rs\<close>: every way through \<open>rs\<close> matches at least one character.
\<close>

fun closes :: "nat \<Rightarrow> rx list \<Rightarrow> bool" where
  "closes g [] = False"
| "closes g (Close h # rs) = (h = g \<or> closes g rs)"
| "closes g (Alt a b # rs) = (closes g (a @ rs) \<and> closes g (b @ rs))"
| "closes g (Char cl # rs) = closes g rs"
| "closes g (Rep cl lo hi greedy # rs) = closes g rs"
| "closes g (Open h # rs) = closes g rs"
| "closes g (Bol # rs) = closes g rs"
| "closes g (Eol # rs) = closes g rs"
| "closes g (NotAhead cl # rs) = closes g rs"

fun always_captures :: "nat \<Rightarrow> rx list \<Rightarrow> bool" where
  "always_captures g [] = False"
| "always_captures g (Open h # rs) = ((h = g \<and> closes g rs) \<or> always_captures g rs)"
| "always_captures g (Alt a b # rs) = (always_captures g (a @ rs) \<and> always_captures g (b @ rs))"
| "always_captures g (Char cl # rs) = always_captures g rs"
| "always_captures g (Rep cl lo hi greedy # rs) = always_captures g rs"
| "always_captures g (Close h # rs) = always_captures g rs"
| "always_captures g (Bol # rs) = always_captures g rs"
| "always_captures g (Eol # rs) = always_captures g rs"
| "always_captures g (NotAhead cl # rs) = always_captures g rs"

fun consumes :: "rx list \<Rightarrow> bool" where
  "consumes [] = False"
| "consumes (Char cl # rs) = True"
| "consumes (Rep cl lo hi greedy # rs) = (0 < lo \<or> consumes rs)"
| "consumes (Alt a b # rs) = (consumes (a @ rs) \<and> consumes (b @ rs))"
| "consumes (Open h # rs) = consumes rs"
| "consumes (Close h # rs) = consumes rs"
| "consumes (Bol # rs) = consumes rs"
| "consumes (Eol # rs) = consumes rs"
| "consumes (NotAhead cl # rs) = consumes rs"

section \<open>Data model (models.py)\<close>

record Contact =
  contact_name :: "pystr option"
  email :: "pystr option"
  phone :: "pystr option"
  fax :: "pystr option"

record Address =
  street :: "pystr option"
  city :: "pystr option"
  postal_code :: "pystr option"
  country :: "pystr option"
  country_code :: "pystr option"

record Organization =
  name :: pystr
  address :: "Address option"
  contact :: "Contact option"
  accreditation_number :: "pystr option"

record MeasurementUnit =
  symbol :: pystr
  name :: "pystr option"
  si_base :: "pystr option"

text \<open>
  The type \<open>'f\<close> stands for Python's \<^verbatim>\<open>float\<close>: the functions below only parse,
  compare and print such values, and take these operations as parameters.
\<close>

record 'f MeasuredValue =
  "value" :: 'f
  unit :: MeasurementUnit
  expanded_uncertainty :: "'f option"
  coverage_factor :: "'f option"
  coverage_probability :: "'f option"

record 'f MeasurementResult =
  name :: pystr
  reference_value :: "'f MeasuredValue option"
  measured_value :: "'f MeasuredValue"
  deviation :: "'f MeasuredValue option"
  remarks :: "pystr option"

record EquipmentInfo =
  name :: pystr
  manufacturer :: "pystr option"
  model :: "pystr option"
  serial_number :: "pystr option"
  equipment_class :: "pystr option"
  identification_number :: "pystr option"

record 'f EnvironmentalConditions =
  temperature :: "'f MeasuredValue option"
  humidity :: "'f MeasuredValue option"
  pressure :: "'f MeasuredValue option"

record date =
  year :: int
  month :: int
  day :: int

text \<open>
  \<open>'t\<close> is the type of the extraction timestamp, which the constructor takes from the
  clock.
\<close>

record ('f, 't) CalibrationCertificate =
  certificate_number :: pystr
  certificate_date :: "date option"
  calibration_date :: "date option"
  valid_until :: "date option"
  language :: pystr
  calibration_laboratory :: Organization
  customer :: "Organization option"
  equipment :: EquipmentInfo
  environmental_conditions :: "'f EnvironmentalConditions option"
  measurement_results :: "'f MeasurementResult list"
  measurement_procedure :: "pystr option"
  traceability :: "pystr option"
  certificate_remarks :: "pystr option"
  raw_text :: "pystr option"
  extraction_timestamp :: "'t option"
  source_file :: "pystr option"

subsection \<open>The unit registry\<close>

text \<open>\<^verbatim>\<open>COMMON_UNITS\<close>, in the order of the dictionary literal.\<close>

definition COMMON_UNITS :: "(pystr \<times> MeasurementUnit) list" where
  "COMMON_UNITS = [
  (ascii ''N'', \<lparr>symbol = ascii ''N'', MeasurementUnit.name = Some (ascii ''newton''), si_base = Some (ascii ''kg'' @ [183] @ ascii ''m/s'' @ [178])\<rparr>),
  (ascii ''kN'', \<lparr>symbol = ascii ''kN'', MeasurementUnit.name = Some (ascii ''kilonewton''), si_base = Some (ascii ''10'' @ [179, 183] @ ascii ''kg'' @ [183] @ ascii ''m/s'' @ [178])\<rparr>),
  (ascii ''MN'', \<lparr>symbol = ascii ''MN'', MeasurementUnit.name = Some (ascii ''meganewton''), si_base = Some (ascii ''10'' @ [8310, 183] @ ascii ''kg'' @ [183] @ ascii ''m/s'' @ [178])\<rparr>),
  ([176] @ ascii ''C'', \<lparr>symbol = [176] @ ascii ''C'', MeasurementUnit.name = Some (ascii ''degree Celsius''), si_base = Some (ascii ''K'')\<rparr>),
  (ascii ''K'', \<lparr>symbol = ascii ''K'', MeasurementUnit.name = Some (ascii ''kelvin''), si_base = Some (ascii ''K'')\<rparr>),
  ([176] @ ascii ''F'', \<lparr>symbol = [176] @ ascii ''F'', MeasurementUnit.name = Some (ascii ''degree Fahrenheit''), si_base = None\<rparr>),
  (ascii ''Pa'', \<lparr>symbol = ascii ''Pa'', MeasurementUnit.name = Some (ascii ''pascal''), si_base = Some (ascii ''kg/(m'' @ [183] @ ascii ''s'' @ [178] @ ascii '')'')\<rparr>),
  (ascii ''kPa'', \<lparr>symbol = ascii ''kPa'', MeasurementUnit.name = Some (ascii ''kilopascal''), si_base = Some (ascii ''10'' @ [179, 183] @ ascii ''kg/(m'' @ [183] @ ascii ''s'' @ [178] @ ascii '')'')\<rparr>),
  (ascii ''MPa'', \<lparr>symbol = ascii ''MPa'', MeasurementUnit.name = Some (ascii ''megapascal''), si_base = Some (ascii ''10'' @ [8310, 183] @ ascii ''kg/(m'' @ [183] @ ascii ''s'' @ [178] @ ascii '')'')\<rparr>),
  (ascii ''bar'', \<lparr>symbol = ascii ''bar'', MeasurementUnit.name = Some (ascii ''bar''), si_base = Some (ascii ''10'' @ [8309, 183] @ ascii ''kg/(m'' @ [183] @ ascii ''s'' @ [178] @ ascii '')'')\<rparr>),
  (ascii ''mbar'', \<lparr>symbol = ascii ''mbar'', MeasurementUnit.name = Some (ascii ''millibar''), si_base = Some (ascii ''10'' @ [178, 183] @ ascii ''kg/(m'' @ [183] @ ascii ''s'' @ [178] @ ascii '')'')\<rparr>),
  (ascii ''m'', \<lparr>symbol = ascii ''m'', MeasurementUnit.name = Some (ascii ''meter''), si_base = Some (ascii ''m'')\<rparr>),
  (ascii ''mm'', \<lparr>symbol = ascii ''mm'', MeasurementUnit.name = Some (ascii ''millimeter''), si_base = Some (ascii ''10'' @ [8315, 179, 183] @ ascii ''m'')\<rparr>),
  ([181] @ ascii ''m'', \<lparr>symbol = [181] @ ascii ''m'', MeasurementUnit.name = Some (ascii ''micrometer''), si_base = Some (ascii ''10'' @ [8315, 8310, 183] @ ascii ''m'')\<rparr>),
  (ascii ''nm'', \<lparr>symbol = ascii ''nm'', MeasurementUnit.name = Some (ascii ''nanometer''), si_base = Some (ascii ''10'' @ [8315, 8313, 183] @ ascii ''m'')\<rparr>),
  (ascii ''kg'', \<lparr>symbol = ascii ''kg'', MeasurementUnit.name = Some (ascii ''kilogram''), si_base = Some (ascii ''kg'')\<rparr>),
  (ascii ''g'', \<lparr>symbol = ascii ''g'', MeasurementUnit.name = Some (ascii ''gram''), si_base = Some (ascii ''10'' @ [8315, 179, 183] @ ascii ''kg'')\<rparr>),
  (ascii ''mg'', \<lparr>symbol = ascii ''mg'', MeasurementUnit.name = Some (ascii ''milligram''), si_base = Some (ascii ''10'' @ [8315, 8310, 183] @ ascii ''kg'')\<rparr>),
  (ascii ''V'', \<lparr>symbol = ascii ''V'', MeasurementUnit.name = Some (ascii ''volt''), si_base = Some (ascii ''kg'' @ [183] @ ascii ''m'' @ [178] @ ascii ''/(A'' @ [183] @ ascii ''s'' @ [179] @ ascii '')'')\<rparr>),
  (ascii ''mV'', \<lparr>symbol = ascii ''mV'', MeasurementUnit.name = Some (ascii ''millivolt''), si_base = Some (ascii ''10'' @ [8315, 179, 183] @ ascii ''kg'' @ [183] @ ascii ''m'' @ [178] @ ascii ''/(A'' @ [183] @ ascii ''s'' @ [179] @ ascii '')'')\<rparr>),
  (ascii ''A'', \<lparr>symbol = ascii ''A'', MeasurementUnit.name = Some (ascii ''ampere''), si_base = Some (ascii ''A'')\<rparr>),
  (ascii ''mA'', \<lparr>symbol = ascii ''mA'', MeasurementUnit.name = Some (ascii ''milliampere''), si_base = Some (ascii ''10'' @ [8315, 179, 183] @ ascii ''A'')\<rparr>),
  ([937], \<lparr>symbol = [937], MeasurementUnit.name = Some (ascii ''ohm''), si_base = Some (ascii ''kg'' @ [183] @ ascii ''m'' @ [178] @ ascii ''/(A'' @ [178, 183] @ ascii ''s'' @ [179] @ ascii '')'')\<rparr>),
  (ascii ''s'', \<lparr>symbol = ascii ''s'', MeasurementUnit.name = Some (ascii ''second''), si_base = Some (ascii ''s'')\<rparr>),
  (ascii ''ms'', \<lparr>symbol = ascii ''ms'', MeasurementUnit.name = Some (ascii ''millisecond''), si_base = Some (ascii ''10'' @ [8315, 179, 183] @ ascii ''s'')\<rparr>),
  (ascii ''min'', \<lparr>symbol = ascii ''min'', MeasurementUnit.name = Some (ascii ''minute''), si_base = Some (ascii ''60'' @ [183] @ ascii ''s'')\<rparr>),
  (ascii ''h'', \<lparr>symbol = ascii ''h'', MeasurementUnit.name = Some (ascii ''hour''), si_base = Some (ascii ''3600'' @ [183] @ ascii ''s'')\<rparr>),
  (ascii ''Hz'', \<lparr>symbol = ascii ''Hz'', MeasurementUnit.name = Some (ascii ''hertz''), si_base = Some (ascii ''s'' @ [8315, 185])\<rparr>),
  (ascii ''kHz'', \<lparr>symbol = ascii ''kHz'', MeasurementUnit.name = Some (ascii ''kilohertz''), si_base = Some (ascii ''10'' @ [179, 183] @ ascii ''s'' @ [8315, 185])\<rparr>),
  (ascii ''MHz'', \<lparr>symbol = ascii ''MHz'', MeasurementUnit.name = Some (ascii ''megahertz''), si_base = Some (ascii ''10'' @ [8310, 183] @ ascii ''s'' @ [8315, 185])\<rparr>),
  (ascii ''%'', \<lparr>symbol = ascii ''%'', MeasurementUnit.name = Some (ascii ''percent''), si_base = None\<rparr>),
  (ascii ''ppm'', \<lparr>symbol = ascii ''ppm'', MeasurementUnit.name = Some (ascii ''parts per million''), si_base = None\<rparr>),
  (ascii ''%rh'', \<lparr>symbol = ascii ''%rh'', MeasurementUnit.name = Some (ascii ''percent relative humidity''), si_base = None\<rparr>)]"

text \<open>
  \<^verbatim>\<open>get_unit\<close>: the table entry when the symbol is a key, a descriptor with only the
  symbol otherwise.
\<close>

definition get_unit :: "pystr \<Rightarrow> MeasurementUnit" where
  "get_unit sy =
     (case map_of COMMON_UNITS sy of
        Some u \<Rightarrow> u
      | None \<Rightarrow> \<lparr>symbol = sy, MeasurementUnit.name = None, si_base = None\<rparr>)"

section \<open>The patterns of the extractor (extractor.py)\<close>

text \<open>
  The regular expressions of the source, item by item. In the quoted expressions
  \<open>\<degree>\<close> is the degree sign (176) and \<open>\<mu>\<close> the micro sign (181).
\<close>

subsection \<open>Character classes\<close>

definition space_class :: cclass where
  "space_class = OneOf ([Space])"

definition digit_class :: cclass where
  "digit_class = OneOf ([Digit])"

definition number_class :: cclass where
  "number_class = OneOf ([Digit] @ chars ''.,'')"

definition id_class :: cclass where
  "id_class = OneOf ([between CHR ''A'' CHR ''Z'', between CHR ''0'' CHR ''9''] @ chars ''-/'')"

definition colon_class :: cclass where
  "colon_class = OneOf (chars '':.'')"

definition date_sep_class :: cclass where
  "date_sep_class = OneOf (chars ''./-'')"

definition letter_class :: cclass where
  "letter_class = OneOf ([between CHR ''a'' CHR ''z'', between CHR ''A'' CHR ''Z''])"

definition unit_char_class :: cclass where
  "unit_char_class = OneOf ([between CHR ''A'' CHR ''Z'', between CHR ''a'' CHR ''z'', Ch 176] @ chars ''%'')"

definition separator_class :: cclass where
  "separator_class = OneOf (chars ''|:'' @ [Ch 9])"

definition no_separator_class :: cclass where
  "no_separator_class = NoneOf (chars ''|:'' @ [Ch 9])"

definition manufacturer_class :: cclass where
  "manufacturer_class = OneOf ([between CHR ''A'' CHR ''Z'', between CHR ''a'' CHR ''z'', between CHR ''0'' CHR ''9'', Space] @ chars ''&'')"

definition model_class :: cclass where
  "model_class = OneOf ([between CHR ''A'' CHR ''Z'', between CHR ''a'' CHR ''z'', between CHR ''0'' CHR ''9''] @ chars ''-/'' @ [Space])"

subsection \<open>\<^verbatim>\<open>DocumentExtractor.PATTERNS\<close>\<close>

text \<open>\<^verbatim>\<open>[Cc]ertificate\s*(?:[Nn]o\.?|[Nn]umber)\s*[:.]?\s*([A-Z0-9\-/]+)\<close>\<close>

definition certificate_number_1 :: "rx list" where
  "certificate_number_1 =
     [Char (OneOf (chars ''Cc''))] @ lits ''ertificate'' @ [star space_class] @
     alts [[Char (OneOf (chars ''Nn''))] @ lits ''o'' @
     [opt (OneOf (chars ''.''))], [Char (OneOf (chars ''Nn''))] @ lits ''umber''] @
     [star space_class, opt colon_class, star space_class] @ group 1 ([plus id_class])"

text \<open>\<^verbatim>\<open>[Kk]alibrierzertifikat\s*(?:[Nn]r\.?)\s*[:.]?\s*([A-Z0-9\-/]+)\<close>\<close>

definition certificate_number_2 :: "rx list" where
  "certificate_number_2 =
     [Char (OneOf (chars ''Kk''))] @ lits ''alibrierzertifikat'' @
     [star space_class, Char (OneOf (chars ''Nn''))] @ lits ''r'' @
     [opt (OneOf (chars ''.'')), star space_class, opt colon_class, star space_class] @
     group 1 ([plus id_class])"

text \<open>\<^verbatim>\<open>[Cc]ertificate\s*[Ii][Dd]\s*[:.]?\s*([A-Z0-9\-/]+)\<close>\<close>

definition certificate_number_3 :: "rx list" where
  "certificate_number_3 =
     [Char (OneOf (chars ''Cc''))] @ lits ''ertificate'' @
     [star space_class, Char (OneOf (chars ''Ii'')), Char (OneOf (chars ''Dd'')), star space_class, opt colon_class, star space_class] @
     group 1 ([plus id_class])"

text \<open>\<^verbatim>\<open>[Cc]alibration\s*[Dd]ate\s*[:.]?\s*(\d{1,2}[./\-]\d{1,2}[./\-]\d{2,4})\<close>\<close>

definition calibration_date_1 :: "rx list" where
  "calibration_date_1 =
     [Char (OneOf (chars ''Cc''))] @ lits ''alibration'' @
     [star space_class, Char (OneOf (chars ''Dd''))] @ lits ''ate'' @
     [star space_class, opt colon_class, star space_class] @
     group 1 ([Rep digit_class 1 (Some 2) True, Char date_sep_class, Rep digit_class 1 (Some 2) True, Char date_sep_class, Rep digit_class 2 (Some 4) True])"

text \<open>\<^verbatim>\<open>[Dd]ate\s+of\s+[Cc]alibration\s*[:.]?\s*(\d{1,2}[./\-]\d{1,2}[./\-]\d{2,4})\<close>\<close>

definition calibration_date_2 :: "rx list" where
  "calibration_date_2 =
     [Char (OneOf (chars ''Dd''))] @ lits ''ate'' @ [plus space_class] @ lits ''of'' @
     [plus space_class, Char (OneOf (chars ''Cc''))] @ lits ''alibration'' @
     [star space_class, opt colon_class, star space_class] @
     group 1 ([Rep digit_class 1 (Some 2) True, Char date_sep_class, Rep digit_class 1 (Some 2) True, Char date_sep_class, Rep digit_class 2 (Some 4) True])"

text \<open>\<^verbatim>\<open>[Kk]alibrierdatum\s*[:.]?\s*(\d{1,2}[./\-]\d{1,2}[./\-]\d{2,4})\<close>\<close>

definition calibration_date_3 :: "rx list" where
  "calibration_date_3 =
     [Char (OneOf (chars ''Kk''))] @ lits ''alibrierdatum'' @
     [star space_class, opt colon_class, star space_class] @
     group 1 ([Rep digit_class 1 (Some 2) True, Char date_sep_class, Rep digit_class 1 (Some 2) True, Char date_sep_class, Rep digit_class 2 (Some 4) True])"

text \<open>\<^verbatim>\<open>[Dd]ate\s+of\s+[Ii]ssue\s*[:.]?\s*(\d{1,2}[./\-]\d{1,2}[./\-]\d{2,4})\<close>\<close>

definition certificate_date_1 :: "rx list" where
  "certificate_date_1 =
     [Char (OneOf (chars ''Dd''))] @ lits ''ate'' @ [plus space_class] @ lits ''of'' @
     [plus space_class, Char (OneOf (chars ''Ii''))] @ lits ''ssue'' @
     [star space_class, opt colon_class, star space_class] @
     group 1 ([Rep digit_class 1 (Some 2) True, Char date_sep_class, Rep digit_class 1 (Some 2) True, Char date_sep_class, Rep digit_class 2 (Some 4) True])"

text \<open>\<^verbatim>\<open>[Ii]ssue\s*[Dd]ate\s*[:.]?\s*(\d{1,2}[./\-]\d{1,2}[./\-]\d{2,4})\<close>\<close>

definition certificate_date_2 :: "rx list" where
  "certificate_date_2 =
     [Char (OneOf (chars ''Ii''))] @ lits ''ssue'' @
     [star space_class, Char (OneOf (chars ''Dd''))] @ lits ''ate'' @
     [star space_class, opt colon_class, star space_class] @
     group 1 ([Rep digit_class 1 (Some 2) True, Char date_sep_class, Rep digit_class 1 (Some 2) True, Char date_sep_class, Rep digit_class 2 (Some 4) True])"

text \<open>\<^verbatim>\<open>[Aa]usstellungsdatum\s*[:.]?\s*(\d{1,2}[./\-]\d{1,2}[./\-]\d{2,4})\<close>\<close>

definition certificate_date_3 :: "rx list" where
  "certificate_date_3 =
     [Char (OneOf (chars ''Aa''))] @ lits ''usstellungsdatum'' @
     [star space_class, opt colon_class, star space_class] @
     group 1 ([Rep digit_class 1 (Some 2) True, Char date_sep_class, Rep digit_class 1 (Some 2) True, Char date_sep_class, Rep digit_class 2 (Some 4) True])"

text \<open>\<^verbatim>\<open>[Ss]erial\s*(?:[Nn]o\.?|[Nn]umber)\s*[:.]?\s*([A-Z0-9\-/]+)\<close>\<close>

definition serial_number_1 :: "rx list" where
  "serial_number_1 =
     [Char (OneOf (chars ''Ss''))] @ lits ''erial'' @ [star space_class] @
     alts [[Char (OneOf (chars ''Nn''))] @ lits ''o'' @
     [opt (OneOf (chars ''.''))], [Char (OneOf (chars ''Nn''))] @ lits ''umber''] @
     [star space_class, opt colon_class, star space_class] @ group 1 ([plus id_class])"

text \<open>\<^verbatim>\<open>[Ss]erien[Nn]ummer\s*[:.]?\s*([A-Z0-9\-/]+)\<close>\<close>

definition serial_number_2 :: "rx list" where
  "serial_number_2 =
     [Char (OneOf (chars ''Ss''))] @ lits ''erien'' @ [Char (OneOf (chars ''Nn''))] @
     lits ''ummer'' @ [star space_class, opt colon_class, star space_class] @
     group 1 ([plus id_class])"

text \<open>\<^verbatim>\<open>S/N\s*[:.]?\s*([A-Z0-9\-/]+)\<close>\<close>

definition serial_number_3 :: "rx list" where
  "serial_number_3 =
     lits ''S/N'' @ [star space_class, opt colon_class, star space_class] @
     group 1 ([plus id_class])"

text \<open>\<^verbatim>\<open>[Mm]anufacturer\s*[:.]?\s*([A-Za-z0-9\s&]+?)(?:\n|$|,)\<close>\<close>

definition manufacturer_1 :: "rx list" where
  "manufacturer_1 =
     [Char (OneOf (chars ''Mm''))] @ lits ''anufacturer'' @
     [star space_class, opt colon_class, star space_class] @
     group 1 ([lazy_plus manufacturer_class]) @ alts [[lit 10], [Eol], lits '','']"

text \<open>\<^verbatim>\<open>[Hh]ersteller\s*[:.]?\s*([A-Za-z0-9\s&]+?)(?:\n|$|,)\<close>\<close>

definition manufacturer_2 :: "rx list" where
  "manufacturer_2 =
     [Char (OneOf (chars ''Hh''))] @ lits ''ersteller'' @
     [star space_class, opt colon_class, star space_class] @
     group 1 ([lazy_plus manufacturer_class]) @ alts [[lit 10], [Eol], lits '','']"

text \<open>\<^verbatim>\<open>[Mm]ade\s+[Bb]y\s*[:.]?\s*([A-Za-z0-9\s&]+?)(?:\n|$|,)\<close>\<close>

definition manufacturer_3 :: "rx list" where
  "manufacturer_3 =
     [Char (OneOf (chars ''Mm''))] @ lits ''ade'' @
     [plus space_class, Char (OneOf (chars ''Bb''))] @ lits ''y'' @
     [star space_class, opt colon_class, star space_class] @
     group 1 ([lazy_plus manufacturer_class]) @ alts [[lit 10], [Eol], lits '','']"

text \<open>\<^verbatim>\<open>[Mm]odel\s*[:.]?\s*([A-Za-z0-9\-/\s]+?)(?:\n|$|,)\<close>\<close>

definition model_1 :: "rx list" where
  "model_1 =
     [Char (OneOf (chars ''Mm''))] @ lits ''odel'' @
     [star space_class, opt colon_class, star space_class] @ group 1 ([lazy_plus model_class]) @
     alts [[lit 10], [Eol], lits '','']"

text \<open>\<^verbatim>\<open>[Tt]ype\s*[:.]?\s*([A-Za-z0-9\-/\s]+?)(?:\n|$|,)\<close>\<close>

definition model_2 :: "rx list" where
  "model_2 =
     [Char (OneOf (chars ''Tt''))] @ lits ''ype'' @
     [star space_class, opt colon_class, star space_class] @ group 1 ([lazy_plus model_class]) @
     alts [[lit 10], [Eol], lits '','']"

text \<open>\<^verbatim>\<open>[Mm]odell\s*[:.]?\s*([A-Za-z0-9\-/\s]+?)(?:\n|$|,)\<close>\<close>

definition model_3 :: "rx list" where
  "model_3 =
     [Char (OneOf (chars ''Mm''))] @ lits ''odell'' @
     [star space_class, opt colon_class, star space_class] @ group 1 ([lazy_plus model_class]) @
     alts [[lit 10], [Eol], lits '','']"

text \<open>\<^verbatim>\<open>[Tt]emperature\s*[:.]?\s*([\d.,]+)\s*\<degree>?C\<close>\<close>

definition temperature_1 :: "rx list" where
  "temperature_1 =
     [Char (OneOf (chars ''Tt''))] @ lits ''emperature'' @
     [star space_class, opt colon_class, star space_class] @ group 1 ([plus number_class]) @
     [star space_class, opt (OneOf ([Ch 176]))] @ lits ''C''"

text \<open>\<^verbatim>\<open>[Tt]emp\.?\s*[:.]?\s*([\d.,]+)\s*\<degree>?C\<close>\<close>

definition temperature_2 :: "rx list" where
  "temperature_2 =
     [Char (OneOf (chars ''Tt''))] @ lits ''emp'' @
     [opt (OneOf (chars ''.'')), star space_class, opt colon_class, star space_class] @
     group 1 ([plus number_class]) @ [star space_class, opt (OneOf ([Ch 176]))] @ lits ''C''"

text \<open>\<^verbatim>\<open>([\d.,]+)\s*\<degree>C\<close>\<close>

definition temperature_3 :: "rx list" where
  "temperature_3 =
     group 1 ([plus number_class]) @ [star space_class, lit 176] @ lits ''C''"

text \<open>\<^verbatim>\<open>[Hh]umidity\s*[:.]?\s*([\d.,]+)\s*%\<close>\<close>

definition humidity_1 :: "rx list" where
  "humidity_1 =
     [Char (OneOf (chars ''Hh''))] @ lits ''umidity'' @
     [star space_class, opt colon_class, star space_class] @ group 1 ([plus number_class]) @
     [star space_class] @ lits ''%''"

text \<open>\<^verbatim>\<open>[Rr]elative\s*[Hh]umidity\s*[:.]?\s*([\d.,]+)\s*%\<close>\<close>

definition humidity_2 :: "rx list" where
  "humidity_2 =
     [Char (OneOf (chars ''Rr''))] @ lits ''elative'' @
     [star space_class, Char (OneOf (chars ''Hh''))] @ lits ''umidity'' @
     [star space_class, opt colon_class, star space_class] @ group 1 ([plus number_class]) @
     [star space_class] @ lits ''%''"

text \<open>\<^verbatim>\<open>[Ff]euchtigkeit\s*[:.]?\s*([\d.,]+)\s*%\<close>\<close>

definition humidity_3 :: "rx list" where
  "humidity_3 =
     [Char (OneOf (chars ''Ff''))] @ lits ''euchtigkeit'' @
     [star space_class, opt colon_class, star space_class] @ group 1 ([plus number_class]) @
     [star space_class] @ lits ''%''"

text \<open>\<^verbatim>\<open>[Pp]ressure\s*[:.]?\s*([\d.,]+)\s*(hPa|mbar|Pa|kPa)\<close>\<close>

definition pressure_1 :: "rx list" where
  "pressure_1 =
     [Char (OneOf (chars ''Pp''))] @ lits ''ressure'' @
     [star space_class, opt colon_class, star space_class] @ group 1 ([plus number_class]) @
     [star space_class] @
     group 2 (alts [lits ''hPa'', lits ''mbar'', lits ''Pa'', lits ''kPa''])"

text \<open>\<^verbatim>\<open>[Aa]tmospheric\s*[Pp]ressure\s*[:.]?\s*([\d.,]+)\s*(hPa|mbar|Pa|kPa)\<close>\<close>

definition pressure_2 :: "rx list" where
  "pressure_2 =
     [Char (OneOf (chars ''Aa''))] @ lits ''tmospheric'' @
     [star space_class, Char (OneOf (chars ''Pp''))] @ lits ''ressure'' @
     [star space_class, opt colon_class, star space_class] @ group 1 ([plus number_class]) @
     [star space_class] @
     group 2 (alts [lits ''hPa'', lits ''mbar'', lits ''Pa'', lits ''kPa''])"

text \<open>\<^verbatim>\<open>[Ll]uftdruck\s*[:.]?\s*([\d.,]+)\s*(hPa|mbar|Pa|kPa)\<close>\<close>

definition pressure_3 :: "rx list" where
  "pressure_3 =
     [Char (OneOf (chars ''Ll''))] @ lits ''uftdruck'' @
     [star space_class, opt colon_class, star space_class] @ group 1 ([plus number_class]) @
     [star space_class] @
     group 2 (alts [lits ''hPa'', lits ''mbar'', lits ''Pa'', lits ''kPa''])"

definition PATTERNS :: "(pystr \<times> rx list list) list" where
  "PATTERNS = [
     (ascii ''certificate_number'', [certificate_number_1, certificate_number_2, certificate_number_3]),
     (ascii ''calibration_date'', [calibration_date_1, calibration_date_2, calibration_date_3]),
     (ascii ''certificate_date'', [certificate_date_1, certificate_date_2, certificate_date_3]),
     (ascii ''serial_number'', [serial_number_1, serial_number_2, serial_number_3]),
     (ascii ''manufacturer'', [manufacturer_1, manufacturer_2, manufacturer_3]),
     (ascii ''model'', [model_1, model_2, model_3]),
     (ascii ''temperature'', [temperature_1, temperature_2, temperature_3]),
     (ascii ''humidity'', [humidity_1, humidity_2, humidity_3]),
     (ascii ''pressure'', [pressure_1, pressure_2, pressure_3])]"

subsection \<open>\<^verbatim>\<open>DocumentExtractor.UNIT_PATTERNS\<close>\<close>

text \<open>\<^verbatim>\<open>([\d.,]+)\s*(kN)\<close>\<close>

definition unit_pattern_1 :: "rx list" where
  "unit_pattern_1 =
     group 1 ([plus number_class]) @ [star space_class] @ group 2 (lits ''kN'')"

text \<open>\<^verbatim>\<open>([\d.,]+)\s*(MN)\<close>\<close>

definition unit_pattern_2 :: "rx list" where
  "unit_pattern_2 =
     group 1 ([plus number_class]) @ [star space_class] @ group 2 (lits ''MN'')"

text \<open>\<^verbatim>\<open>([\d.,]+)\s*N(?![a-zA-Z])\<close>\<close>

definition unit_pattern_3 :: "rx list" where
  "unit_pattern_3 =
     group 1 ([plus number_class]) @ [star space_class] @ lits ''N'' @ [NotAhead letter_class]"

text \<open>\<^verbatim>\<open>([\d.,]+)\s*\<degree>C\<close>\<close>

definition unit_pattern_4 :: "rx list" where
  "unit_pattern_4 =
     group 1 ([plus number_class]) @ [star space_class, lit 176] @ lits ''C''"

text \<open>\<^verbatim>\<open>([\d.,]+)\s*K(?![a-zA-Z])\<close>\<close>

definition unit_pattern_5 :: "rx list" where
  "unit_pattern_5 =
     group 1 ([plus number_class]) @ [star space_class] @ lits ''K'' @ [NotAhead letter_class]"

text \<open>\<^verbatim>\<open>([\d.,]+)\s*(MPa)\<close>\<close>

definition unit_pattern_6 :: "rx list" where
  "unit_pattern_6 =
     group 1 ([plus number_class]) @ [star space_class] @ group 2 (lits ''MPa'')"

text \<open>\<^verbatim>\<open>([\d.,]+)\s*(kPa)\<close>\<close>

definition unit_pattern_7 :: "rx list" where
  "unit_pattern_7 =
     group 1 ([plus number_class]) @ [star space_class] @ group 2 (lits ''kPa'')"

text \<open>\<^verbatim>\<open>([\d.,]+)\s*(Pa)(?![a-zA-Z])\<close>\<close>

definition unit_pattern_8 :: "rx list" where
  "unit_pattern_8 =
     group 1 ([plus number_class]) @ [star space_class] @ group 2 (lits ''Pa'') @
     [NotAhead letter_class]"

text \<open>\<^verbatim>\<open>([\d.,]+)\s*(bar)\<close>\<close>

definition unit_pattern_9 :: "rx list" where
  "unit_pattern_9 =
     group 1 ([plus number_class]) @ [star space_class] @ group 2 (lits ''bar'')"

text \<open>\<^verbatim>\<open>([\d.,]+)\s*(mbar)\<close>\<close>

definition unit_pattern_10 :: "rx list" where
  "unit_pattern_10 =
     group 1 ([plus number_class]) @ [star space_class] @ group 2 (lits ''mbar'')"

text \<open>\<^verbatim>\<open>([\d.,]+)\s*(mm)\<close>\<close>

definition unit_pattern_11 :: "rx list" where
  "unit_pattern_11 =
     group 1 ([plus number_class]) @ [star space_class] @ group 2 (lits ''mm'')"

text \<open>\<^verbatim>\<open>([\d.,]+)\s*(\<mu>m|um)\<close>\<close>

definition unit_pattern_12 :: "rx list" where
  "unit_pattern_12 =
     group 1 ([plus number_class]) @ [star space_class] @ group 2 (alts [[lit 181] @
     lits ''m'', lits ''um''])"

text \<open>\<^verbatim>\<open>([\d.,]+)\s*m(?![a-zA-Z])\<close>\<close>

definition unit_pattern_13 :: "rx list" where
  "unit_pattern_13 =
     group 1 ([plus number_class]) @ [star space_class] @ lits ''m'' @ [NotAhead letter_class]"

text \<open>\<^verbatim>\<open>([\d.,]+)\s*(kg)\<close>\<close>

definition unit_pattern_14 :: "rx list" where
  "unit_pattern_14 =
     group 1 ([plus number_class]) @ [star space_class] @ group 2 (lits ''kg'')"

text \<open>\<^verbatim>\<open>([\d.,]+)\s*g(?![a-zA-Z])\<close>\<close>

definition unit_pattern_15 :: "rx list" where
  "unit_pattern_15 =
     group 1 ([plus number_class]) @ [star space_class] @ lits ''g'' @ [NotAhead letter_class]"

text \<open>\<^verbatim>\<open>([\d.,]+)\s*(mg)\<close>\<close>

definition unit_pattern_16 :: "rx list" where
  "unit_pattern_16 =
     group 1 ([plus number_class]) @ [star space_class] @ group 2 (lits ''mg'')"

text \<open>\<^verbatim>\<open>([\d.,]+)\s*(mV)\<close>\<close>

definition unit_pattern_17 :: "rx list" where
  "unit_pattern_17 =
     group 1 ([plus number_class]) @ [star space_class] @ group 2 (lits ''mV'')"

text \<open>\<^verbatim>\<open>([\d.,]+)\s*V(?![a-zA-Z])\<close>\<close>

definition unit_pattern_18 :: "rx list" where
  "unit_pattern_18 =
     group 1 ([plus number_class]) @ [star space_class] @ lits ''V'' @ [NotAhead letter_class]"

text \<open>\<^verbatim>\<open>([\d.,]+)\s*(mA)\<close>\<close>

definition unit_pattern_19 :: "rx list" where
  "unit_pattern_19 =
     group 1 ([plus number_class]) @ [star space_class] @ group 2 (lits ''mA'')"

text \<open>\<^verbatim>\<open>([\d.,]+)\s*A(?![a-zA-Z])\<close>\<close>

definition unit_pattern_20 :: "rx list" where
  "unit_pattern_20 =
     group 1 ([plus number_class]) @ [star space_class] @ lits ''A'' @ [NotAhead letter_class]"

text \<open>\<^verbatim>\<open>([\d.,]+)\s*%\s*(?:rh|RH)\<close>\<close>

definition unit_pattern_21 :: "rx list" where
  "unit_pattern_21 =
     group 1 ([plus number_class]) @ [star space_class] @ lits ''%'' @ [star space_class] @
     alts [lits ''rh'', lits ''RH'']"

text \<open>\<^verbatim>\<open>([\d.,]+)\s*%\<close>\<close>

definition unit_pattern_22 :: "rx list" where
  "unit_pattern_22 =
     group 1 ([plus number_class]) @ [star space_class] @ lits ''%''"

definition UNIT_PATTERNS :: "(rx list \<times> pystr) list" where
  "UNIT_PATTERNS = [
     (unit_pattern_1, ascii ''kN''),
     (unit_pattern_2, ascii ''MN''),
     (unit_pattern_3, ascii ''N''),
     (unit_pattern_4, [176] @ ascii ''C''),
     (unit_pattern_5, ascii ''K''),
     (unit_pattern_6, ascii ''MPa''),
     (unit_pattern_7, ascii ''kPa''),
     (unit_pattern_8, ascii ''Pa''),
     (unit_pattern_9, ascii ''bar''),
     (unit_pattern_10, ascii ''mbar''),
     (unit_pattern_11, ascii ''mm''),
     (unit_pattern_12, [181] @ ascii ''m''),
     (unit_pattern_13, ascii ''m''),
     (unit_pattern_14, ascii ''kg''),
     (unit_pattern_15, ascii ''g''),
     (unit_pattern_16, ascii ''mg''),
     (unit_pattern_17, ascii ''mV''),
     (unit_pattern_18, ascii ''V''),
     (unit_pattern_19, ascii ''mA''),
     (unit_pattern_20, ascii ''A''),
     (unit_pattern_21, ascii ''%rh''),
     (unit_pattern_22, ascii ''%'')]"

subsection \<open>The pattern of a delimited row\<close>

text \<open>\<^verbatim>\<open>^([^|:\t]+?)\s*[|:\t]\s*([\d.,]+)\s*([A-Za-z\<degree>%]+)?\s*[|:\t]?\s*([\d.,]*)\s*([A-Za-z\<degree>%]*)?\s*[|:\t]?\s*([\d.,]*)\<close>\<close>

definition measurement_pattern :: "rx list" where
  "measurement_pattern =
     [Bol] @ group 1 ([lazy_plus no_separator_class]) @
     [star space_class, Char separator_class, star space_class] @ group 2 ([plus number_class]) @
     [star space_class] @ optional (group 3 ([plus unit_char_class])) @
     [star space_class, opt separator_class, star space_class] @ group 4 ([star number_class]) @
     [star space_class] @ optional (group 5 ([star unit_char_class])) @
     [star space_class, opt separator_class, star space_class] @ group 6 ([star number_class])"

section \<open>The extractor (extractor.py)\<close>

text \<open>
  The exceptions that the extractor does not catch itself. \<^verbatim>\<open>AttributeError\<close> is what a
  string method raises on the \<^verbatim>\<open>None\<close> of a group that took no part in a match.
  (\<^verbatim>\<open>m.group(g)\<close> raises \<^verbatim>\<open>IndexError\<close> only for a group the pattern does not have; every
  group asked for below is written in its pattern.)
\<close>

datatype error = AttributeError

definition no_flags :: flags where
  "no_flags = \<lparr>ignorecase = False, multiline = False\<rparr>"

subsection \<open>Dates\<close>

text \<open>
  \<^verbatim>\<open>datetime.strptime\<close> turns the format into a regular expression, one named group per
  directive: here group 1 is \<^verbatim>\<open>d\<close>, 2 is \<^verbatim>\<open>m\<close>, 3 is \<^verbatim>\<open>Y\<close> and 4 is \<^verbatim>\<open>y\<close>.
\<close>

text \<open>\<^verbatim>\<open>(?P<d>3[0-1]|[1-2]\d|0[1-9]|[1-9]| [1-9])\<close>\<close>

definition directive_d :: "rx list" where
  "directive_d =
     group 1 (alts [lits ''3'' @ [Char (OneOf [between CHR ''0'' CHR ''1''])],
                    [Char (OneOf [between CHR ''1'' CHR ''2'']), Char digit_class],
                    lits ''0'' @ [Char (OneOf [between CHR ''1'' CHR ''9''])],
                    [Char (OneOf [between CHR ''1'' CHR ''9''])],
                    lits '' '' @ [Char (OneOf [between CHR ''1'' CHR ''9''])]])"

text \<open>\<^verbatim>\<open>(?P<m>1[0-2]|0[1-9]|[1-9])\<close>\<close>

definition directive_m :: "rx list" where
  "directive_m =
     group 2 (alts [lits ''1'' @ [Char (OneOf [between CHR ''0'' CHR ''2''])],
                    lits ''0'' @ [Char (OneOf [between CHR ''1'' CHR ''9''])],
                    [Char (OneOf [between CHR ''1'' CHR ''9''])]])"

text \<open>\<^verbatim>\<open>(?P<Y>\d\d\d\d)\<close>\<close>

definition directive_Y :: "rx list" where
  "directive_Y = group 3 [Char digit_class, Char digit_class, Char digit_class, Char digit_class]"

text \<open>\<^verbatim>\<open>(?P<y>\d\d)\<close>\<close>

definition directive_y :: "rx list" where
  "directive_y = group 4 [Char digit_class, Char digit_class]"

text \<open>
  The expression of a format: a directive after each percent sign, \<^verbatim>\<open>\s+\<close> for a run of
  white space, the character itself otherwise. \<open>None\<close> stands for the \<^verbatim>\<open>ValueError\<close> of a
  directive other than the four above or of a stray percent sign.
\<close>

fun format_regex :: "pystr \<Rightarrow> rx list option" where
  "format_regex [] = Some []"
| "format_regex [c] = (if c = 37 then None else if isspace c then Some [plus space_class] else Some [lit c])"
| "format_regex (c # d # cs) =
     (if c = 37 then
        (case (if d = 100 then Some directive_d else if d = 109 then Some directive_m
               else if d = 89 then Some directive_Y else if d = 121 then Some directive_y
               else None) of
           None \<Rightarrow> None
         | Some r \<Rightarrow> map_option ((@) r) (format_regex cs))
      else if isspace c then
        (if isspace d then format_regex (d # cs)
         else map_option ((#) (plus space_class)) (format_regex (d # cs)))
      else map_option ((#) (lit c)) (format_regex (d # cs)))"

definition is_leap :: "int \<Rightarrow> bool" where
  "is_leap y = (y mod 4 = 0 \<and> (y mod 100 \<noteq> 0 \<or> y mod 400 = 0))"

definition days_in_month :: "int \<Rightarrow> int \<Rightarrow> int" where
  "days_in_month y m =
     (if m = 2 then (if is_leap y then 29 else 28)
      else if m = 4 \<or> m = 6 \<or> m = 9 \<or> m = 11 then 30 else 31)"

text \<open>The dates that \<^verbatim>\<open>datetime.date\<close> accepts.\<close>

definition valid_date :: "int \<Rightarrow> int \<Rightarrow> int \<Rightarrow> bool" where
  "valid_date y m d =
     (1 \<le> y \<and> y \<le> 9999 \<and> 1 \<le> m \<and> m \<le> 12 \<and> 1 \<le> d \<and> d \<le> days_in_month y m)"

text \<open>
  \<^verbatim>\<open>datetime.strptime(data, fmt)\<close> for the formats made of these directives, reduced to the
  date; \<open>None\<close> stands for \<^verbatim>\<open>ValueError\<close>. The match is anchored at the start and must
  cover the whole string; a two-digit year up to 68 is in the century 2000, a later one in
  the century 1900.
\<close>

definition strptime :: "pystr \<Rightarrow> pystr \<Rightarrow> date option" where
  "strptime data_string fmt =
     (case format_regex fmt of
        None \<Rightarrow> None
      | Some rs \<Rightarrow>
          (case re_match \<lparr>ignorecase = True, multiline = False\<rparr> rs data_string of
             None \<Rightarrow> None
           | Some found \<Rightarrow>
               if length data_string \<noteq> mt_end found then None
               else
                 (let year =
                        (case group_of found 4 of
                           Some g \<Rightarrow>
                             map_option (\<lambda>y. if y \<le> 68 then y + 2000 else y + 1900) (py_int g)
                         | None \<Rightarrow>
                             (case group_of found 3 of Some g \<Rightarrow> py_int g | None \<Rightarrow> Some 1900));
                      mon = (case group_of found 2 of Some g \<Rightarrow> py_int g | None \<Rightarrow> Some 1);
                      dy = (case group_of found 1 of Some g \<Rightarrow> py_int g | None \<Rightarrow> Some 1)
                  in case (year, mon, dy) of
                       (Some y, Some m, Some d) \<Rightarrow>
                         if valid_date y m d then Some \<lparr>year = y, month = m, day = d\<rparr> else None
                     | _ \<Rightarrow> None)))"

definition date_formats :: "pystr list" where
  "date_formats =
     [ascii ''%d.%m.%Y'', ascii ''%d/%m/%Y'', ascii ''%Y-%m-%d'', ascii ''%d-%m-%Y'',
      ascii ''%m/%d/%Y'', ascii ''%d.%m.%y'', ascii ''%d/%m/%y'']"

text \<open>The loop of \<^verbatim>\<open>parse_date\<close> over the formats that are left.\<close>

fun parse_date_loop :: "pystr \<Rightarrow> pystr list \<Rightarrow> date option" where
  "parse_date_loop date_str [] = None"
| "parse_date_loop date_str (fmt # fmts) =
     (case strptime (strip date_str) fmt of
        Some parsed \<Rightarrow> Some \<lparr>year = year parsed, month = month parsed, day = day parsed\<rparr>
      | None \<Rightarrow> parse_date_loop date_str fmts)"

definition parse_date :: "pystr \<Rightarrow> date option" where
  "parse_date date_str = parse_date_loop date_str date_formats"

subsection \<open>Keyed scalar extraction\<close>

definition search_flags :: flags where
  "search_flags = \<lparr>ignorecase = True, multiline = True\<rparr>"

text \<open>The loop of \<^verbatim>\<open>extract_pattern\<close> over the patterns that are left.\<close>

fun extract_pattern_loop :: "pystr \<Rightarrow> rx list list \<Rightarrow> error + pystr option" where
  "extract_pattern_loop text [] = Inr None"
| "extract_pattern_loop text (pattern # patterns) =
     (case re_search search_flags pattern text of
        Some m \<Rightarrow>
          (case group_of m 1 of
             None \<Rightarrow> Inl AttributeError
           | Some g \<Rightarrow> Inr (Some (strip g)))
      | None \<Rightarrow> extract_pattern_loop text patterns)"

definition extract_pattern :: "pystr \<Rightarrow> pystr \<Rightarrow> error + pystr option" where
  "extract_pattern text pattern_key = extract_pattern_loop text (dict_get PATTERNS pattern_key [])"

subsection \<open>Measurement mining\<close>

text \<open>
  The parameter \<open>pyfloat\<close> is \<^verbatim>\<open>float\<close> on strings, with \<open>None\<close> for its
  \<^verbatim>\<open>ValueError\<close>.
\<close>

definition new_result :: "pystr \<Rightarrow> 'f \<Rightarrow> MeasurementUnit \<Rightarrow> 'f MeasurementResult" where
  "new_result n v u =
     \<lparr>MeasurementResult.name = n, reference_value = None,
      measured_value = \<lparr>value = v, unit = u, expanded_uncertainty = None,
        coverage_factor = None, coverage_probability = None\<rparr>,
      deviation = None, remarks = None\<rparr>"

text \<open>
  The body of the first loop for one match: \<open>Inr None\<close> is \<^verbatim>\<open>continue\<close>,
  \<open>Inr (Some r)\<close> appends \<open>r\<close>.
\<close>

definition row_result ::
  "(pystr \<Rightarrow> 'f option) \<Rightarrow> match \<Rightarrow> error + 'f MeasurementResult option" where
  "row_result pyfloat m =
     (case group_of m 1 of
        None \<Rightarrow> Inl AttributeError
      | Some g1 \<Rightarrow>
          (let name = strip g1
           in case group_of m 2 of
                None \<Rightarrow> Inl AttributeError
              | Some g2 \<Rightarrow>
                  (let value_str = replace_char 44 46 g2;
                       unit_str = (case group_of m 3 of None \<Rightarrow> [] | Some g3 \<Rightarrow> g3)
                   in if name = [] \<or> length name > 100 then Inr None
                      else
                        (case pyfloat value_str of
                           None \<Rightarrow> Inr None
                         | Some v \<Rightarrow>
                             (let unit =
                                    (if unit_str \<noteq> [] then get_unit unit_str
                                     else \<lparr>symbol = [], MeasurementUnit.name = None,
                                            si_base = None\<rparr>)
                              in Inr (Some (new_result name v unit)))))))"

fun row_loop ::
  "(pystr \<Rightarrow> 'f option) \<Rightarrow> match list \<Rightarrow> 'f MeasurementResult list \<Rightarrow>
   error + 'f MeasurementResult list" where
  "row_loop pyfloat [] results = Inr results"
| "row_loop pyfloat (m # ms) results =
     (case row_result pyfloat m of
        Inl e \<Rightarrow> Inl e
      | Inr None \<Rightarrow> row_loop pyfloat ms results
      | Inr (Some r) \<Rightarrow> row_loop pyfloat ms (results @ [r]))"

definition measurement_label :: "pystr \<Rightarrow> pystr" where
  "measurement_label unit_symbol = ascii ''Measurement ('' @ unit_symbol @ ascii '')''"

text \<open>
  The body of the second loop for one match of one unit pattern: \<open>Inr None\<close> is
  \<^verbatim>\<open>continue\<close>, \<open>Inr (Some r)\<close> is the result built from the match, before the check for
  duplicates.
\<close>

definition unit_result ::
  "(pystr \<Rightarrow> 'f option) \<Rightarrow> pystr \<Rightarrow> pystr \<Rightarrow> match \<Rightarrow> error + 'f MeasurementResult option" where
  "unit_result pyfloat text unit_symbol m =
     (case group_of m 1 of
        None \<Rightarrow> Inl AttributeError
      | Some g1 \<Rightarrow>
          (let value_str = replace_char 44 46 g1
           in case pyfloat value_str of
                None \<Rightarrow> Inr None
              | Some v \<Rightarrow>
                  (let start = nat (max 0 (int (mt_start m) - 50));
                       context = strip (slice text start (mt_start m));
                       name = (if context \<noteq> [] then strip (last (split_on 10 context))
                               else measurement_label unit_symbol);
                       name = (if length name > 100 then measurement_label unit_symbol else name);
                       unit = get_unit unit_symbol
                   in Inr (Some (new_result name v unit)))))"

text \<open>\<^verbatim>\<open>any(r.name == name and r.measured_value.value == value for r in results)\<close>\<close>

definition is_duplicate :: "'f MeasurementResult list \<Rightarrow> 'f MeasurementResult \<Rightarrow> bool" where
  "is_duplicate results r =
     (\<exists>x \<in> set results.
        MeasurementResult.name x = MeasurementResult.name r \<and>
        value (measured_value x) = value (measured_value r))"

fun unit_match_loop ::
  "(pystr \<Rightarrow> 'f option) \<Rightarrow> pystr \<Rightarrow> pystr \<Rightarrow> match list \<Rightarrow> 'f MeasurementResult list \<Rightarrow>
   error + 'f MeasurementResult list" where
  "unit_match_loop pyfloat text unit_symbol [] results = Inr results"
| "unit_match_loop pyfloat text unit_symbol (m # ms) results =
     (case unit_result pyfloat text unit_symbol m of
        Inl e \<Rightarrow> Inl e
      | Inr None \<Rightarrow> unit_match_loop pyfloat text unit_symbol ms results
      | Inr (Some r) \<Rightarrow>
          unit_match_loop pyfloat text unit_symbol ms
            (if \<not> is_duplicate results r then results @ [r] else results))"

fun unit_pattern_loop ::
  "(pystr \<Rightarrow> 'f option) \<Rightarrow> pystr \<Rightarrow> (rx list \<times> pystr) list \<Rightarrow> 'f MeasurementResult list \<Rightarrow>
   error + 'f MeasurementResult list" where
  "unit_pattern_loop pyfloat text [] results = Inr results"
| "unit_pattern_loop pyfloat text ((pattern, unit_symbol) # ps) results =
     (case unit_match_loop pyfloat text unit_symbol (re_finditer no_flags pattern text) results of
        Inl e \<Rightarrow> Inl e
      | Inr results' \<Rightarrow> unit_pattern_loop pyfloat text ps results')"

definition extract_measurement_tables ::
  "(pystr \<Rightarrow> 'f option) \<Rightarrow> pystr \<Rightarrow> error + 'f MeasurementResult list" where
  "extract_measurement_tables pyfloat text =
     (case row_loop pyfloat
             (re_finditer \<lparr>ignorecase = False, multiline = True\<rparr> measurement_pattern text) [] of
        Inl e \<Rightarrow> Inl e
      | Inr results \<Rightarrow> unit_pattern_loop pyfloat text UNIT_PATTERNS results)"

subsection \<open>The two passes, described\<close>

text \<open>
  The matches of the delimited-row pattern, and the results that the first loop appends
  for them, in the order of the matches.
\<close>

definition row_matches :: "pystr \<Rightarrow> match list" where
  "row_matches text =
     re_finditer \<lparr>ignorecase = False, multiline = True\<rparr> measurement_pattern text"

definition appended :: "error + 'a option \<Rightarrow> 'a list" where
  "appended x = (case x of Inr (Some r) \<Rightarrow> [r] | _ \<Rightarrow> [])"

definition delimited_rows :: "(pystr \<Rightarrow> 'f option) \<Rightarrow> pystr \<Rightarrow> 'f MeasurementResult list" where
  "delimited_rows pyfloat text =
     concat (map (\<lambda>m. appended (row_result pyfloat m)) (row_matches text))"

text \<open>
  The results built from the matches of one unit pattern, each with the position of its
  match, in the order of the matches; and those of all unit patterns, pattern after
  pattern.
\<close>

definition unit_hits ::
  "(pystr \<Rightarrow> 'f option) \<Rightarrow> pystr \<Rightarrow> rx list \<Rightarrow> pystr \<Rightarrow> (nat \<times> 'f MeasurementResult) list" where
  "unit_hits pyfloat text pattern unit_symbol =
     concat (map (\<lambda>m. map (Pair (mt_start m)) (appended (unit_result pyfloat text unit_symbol m)))
               (re_finditer no_flags pattern text))"

definition all_unit_hits ::
  "(pystr \<Rightarrow> 'f option) \<Rightarrow> pystr \<Rightarrow> (nat \<times> 'f MeasurementResult) list" where
  "all_unit_hits pyfloat text =
     concat (map (\<lambda>(pattern, unit_symbol). unit_hits pyfloat text pattern unit_symbol)
               UNIT_PATTERNS)"

definition unit_candidates :: "(pystr \<Rightarrow> 'f option) \<Rightarrow> pystr \<Rightarrow> 'f MeasurementResult list" where
  "unit_candidates pyfloat text = map snd (all_unit_hits pyfloat text)"

text \<open>
  Appending candidates one after the other, each unless an earlier result has its name
  and value; \<open>survivors\<close> are the candidates that get appended.
\<close>

fun keep_new :: "'f MeasurementResult list \<Rightarrow> 'f MeasurementResult list \<Rightarrow> 'f MeasurementResult list" where
  "keep_new results [] = results"
| "keep_new results (c # cs) =
     keep_new (if \<not> is_duplicate results c then results @ [c] else results) cs"

fun survivors :: "'f MeasurementResult list \<Rightarrow> 'f MeasurementResult list \<Rightarrow> 'f MeasurementResult list" where
  "survivors results [] = []"
| "survivors results (c # cs) =
     (if is_duplicate results c then survivors results cs
      else c # survivors (results @ [c]) cs)"

text \<open>The number of results with a given name and value.\<close>

definition count_named :: "pystr \<Rightarrow> 'f \<Rightarrow> 'f MeasurementResult list \<Rightarrow> nat" where
  "count_named n v rs =
     length (filter (\<lambda>r. MeasurementResult.name r = n \<and> value (measured_value r) = v) rs)"

text \<open>
  The deduplication as the specification words it: whenever the two passes produce two
  matches with the same name and value, the returned sequence has exactly one result with
  that name and value.
\<close>

definition spec_deduplicated :: "(pystr \<Rightarrow> 'f option) \<Rightarrow> pystr \<Rightarrow> bool" where
  "spec_deduplicated pyfloat text =
     (case extract_measurement_tables pyfloat text of
        Inl e \<Rightarrow> False
      | Inr out \<Rightarrow>
          (\<forall>r \<in> set (delimited_rows pyfloat text @ unit_candidates pyfloat text).
             2 \<le> count_named (MeasurementResult.name r) (value (measured_value r))
                   (delimited_rows pyfloat text @ unit_candidates pyfloat text) \<longrightarrow>
             count_named (MeasurementResult.name r) (value (measured_value r)) out = 1))"

text \<open>
  The order as the specification words it: the delimited rows, followed by the
  unit-anchored results in the order of their positions in the text, each unless an earlier
  result has its name and value.
\<close>

definition spec_text_order :: "(pystr \<Rightarrow> 'f option) \<Rightarrow> pystr \<Rightarrow> 'f MeasurementResult list" where
  "spec_text_order pyfloat text =
     keep_new (delimited_rows pyfloat text) (map snd (sort_key fst (all_unit_hits pyfloat text)))"

text \<open>A result with a name of 1 to 100 characters and only the measured value.\<close>

definition well_named :: "'f MeasurementResult \<Rightarrow> bool" where
  "well_named r \<longleftrightarrow>
     MeasurementResult.name r \<noteq> [] \<and> length (MeasurementResult.name r) \<le> 100 \<and>
     reference_value r = None \<and> deviation r = None \<and> remarks r = None"

subsection \<open>Environmental conditions\<close>

text \<open>The first pressure pattern that is found, searched without \<^verbatim>\<open>MULTILINE\<close>.\<close>

fun pressure_search :: "pystr \<Rightarrow> rx list list \<Rightarrow> match option" where
  "pressure_search text [] = None"
| "pressure_search text (pattern # patterns) =
     (case re_search \<lparr>ignorecase = True, multiline = False\<rparr> pattern text of
        Some m \<Rightarrow> Some m
      | None \<Rightarrow> pressure_search text patterns)"

definition plain_value :: "'f \<Rightarrow> MeasurementUnit \<Rightarrow> 'f MeasuredValue" where
  "plain_value v u =
     \<lparr>value = v, unit = u, expanded_uncertainty = None, coverage_factor = None,
      coverage_probability = None\<rparr>"

text \<open>
  The value of one of the two keyed quantities: the string must be true (present and not
  empty) and must convert.
\<close>

definition keyed_value ::
  "(pystr \<Rightarrow> 'f option) \<Rightarrow> pystr option \<Rightarrow> pystr \<Rightarrow> 'f MeasuredValue option" where
  "keyed_value pyfloat str_opt unit_symbol =
     (case str_opt of
        None \<Rightarrow> None
      | Some s \<Rightarrow>
          if s = [] then None
          else
            (case pyfloat (replace_char 44 46 s) of
               None \<Rightarrow> None
             | Some v \<Rightarrow> Some (plain_value v (get_unit unit_symbol))))"

text \<open>
  The pressure of a match: the conversion of group 1, then the unit of group 2 (or hPa for a
  pattern with one group). A group 2 that took no part gives a descriptor that the model
  class rejects with a \<^verbatim>\<open>ValueError\<close>, which is caught like the one of \<^verbatim>\<open>float\<close>.
\<close>

definition pressure_value ::
  "(pystr \<Rightarrow> 'f option) \<Rightarrow> match \<Rightarrow> error + 'f MeasuredValue option" where
  "pressure_value pyfloat m =
     (case group_of m 1 of
        None \<Rightarrow> Inl AttributeError
      | Some g1 \<Rightarrow>
          (case pyfloat (replace_char 44 46 g1) of
             None \<Rightarrow> Inr None
           | Some v \<Rightarrow>
               (let pressure_unit = (if mt_ngroups m > 1 then group_of m 2 else Some (ascii ''hPa''))
                in case pressure_unit of
                     None \<Rightarrow> Inr None
                   | Some u \<Rightarrow> Inr (Some (plain_value v (get_unit u))))))"

definition extract_environmental_conditions ::
  "(pystr \<Rightarrow> 'f option) \<Rightarrow> pystr \<Rightarrow> error + 'f EnvironmentalConditions option" where
  "extract_environmental_conditions pyfloat text =
     (case extract_pattern text (ascii ''temperature'') of
        Inl e \<Rightarrow> Inl e
      | Inr temp_str \<Rightarrow>
     (case extract_pattern text (ascii ''humidity'') of
        Inl e \<Rightarrow> Inl e
      | Inr humidity_str \<Rightarrow>
          (let conditions = \<lparr>temperature = None, humidity = None, pressure = None\<rparr>;
               has_data = False;
               t = keyed_value pyfloat temp_str ([176] @ ascii ''C'');
               (conditions, has_data) =
                 (case t of None \<Rightarrow> (conditions, has_data)
                  | Some v \<Rightarrow> (conditions\<lparr>temperature := Some v\<rparr>, True));
               h = keyed_value pyfloat humidity_str (ascii ''%rh'');
               (conditions, has_data) =
                 (case h of None \<Rightarrow> (conditions, has_data)
                  | Some v \<Rightarrow> (conditions\<lparr>humidity := Some v\<rparr>, True));
               pressure_match = pressure_search text (dict_get PATTERNS (ascii ''pressure'') [])
           in case (case pressure_match of
                      None \<Rightarrow> Inr None
                    | Some m \<Rightarrow> pressure_value pyfloat m) of
                Inl e \<Rightarrow> Inl e
              | Inr p \<Rightarrow>
                  (let (conditions, has_data) =
                         (case p of None \<Rightarrow> (conditions, has_data)
                          | Some v \<Rightarrow> (conditions\<lparr>pressure := Some v\<rparr>, True))
                   in Inr (if has_data then Some conditions else None)))))"

text \<open>
  What can be extracted for each of the three quantities: a value is extracted when its
  pattern is found and the number converts.
\<close>

definition extracted_temperature :: "(pystr \<Rightarrow> 'f option) \<Rightarrow> pystr \<Rightarrow> 'f MeasuredValue option" where
  "extracted_temperature pyfloat text =
     (case extract_pattern text (ascii ''temperature'') of
        Inl e \<Rightarrow> None
      | Inr s \<Rightarrow> keyed_value pyfloat s ([176] @ ascii ''C''))"

definition extracted_humidity :: "(pystr \<Rightarrow> 'f option) \<Rightarrow> pystr \<Rightarrow> 'f MeasuredValue option" where
  "extracted_humidity pyfloat text =
     (case extract_pattern text (ascii ''humidity'') of
        Inl e \<Rightarrow> None
      | Inr s \<Rightarrow> keyed_value pyfloat s (ascii ''%rh''))"

definition extracted_pressure :: "(pystr \<Rightarrow> 'f option) \<Rightarrow> pystr \<Rightarrow> 'f MeasuredValue option" where
  "extracted_pressure pyfloat text =
     (case pressure_search text (dict_get PATTERNS (ascii ''pressure'') []) of
        None \<Rightarrow> None
      | Some m \<Rightarrow> (case pressure_value pyfloat m of Inl e \<Rightarrow> None | Inr p \<Rightarrow> p))"

subsection \<open>Assembling the certificate\<close>

text \<open>
  \<^verbatim>\<open>Path(file_path)\<close> with \<^verbatim>\<open>/\<close> (47) as separator, as \<^verbatim>\<open>pathlib\<close> parses a string on a POSIX
  system: the root is \<^verbatim>\<open>//\<close> for exactly two leading separators and \<^verbatim>\<open>/\<close> for any other
  number of them; the components are the pieces between separators, without the empty
  ones and without the single dots.
\<close>

definition path_root :: "pystr \<Rightarrow> pystr" where
  "path_root p =
     (let n = length (takeWhile (\<lambda>c. c = 47) p)
      in if n = 0 then [] else if n = 2 then ascii ''//'' else ascii ''/'')"

definition path_components :: "pystr \<Rightarrow> pystr list" where
  "path_components p = filter (\<lambda>x. x \<noteq> [] \<and> x \<noteq> ascii ''.'') (split_on 47 p)"

text \<open>\<^verbatim>\<open>Path.name\<close>: the final component, or the empty string when there is none.\<close>

definition path_name :: "pystr \<Rightarrow> pystr" where
  "path_name p = (case rev (path_components p) of [] \<Rightarrow> [] | x # xs \<Rightarrow> x)"

text \<open>\<^verbatim>\<open>sep.join(xs)\<close> for a separator of one character.\<close>

fun join_with :: "int \<Rightarrow> pystr list \<Rightarrow> pystr" where
  "join_with c [] = []"
| "join_with c [x] = x"
| "join_with c (x # y # ys) = x @ [c] @ join_with c (y # ys)"

text \<open>\<^verbatim>\<open>str(Path(file_path))\<close>: the root and the components, or a dot when there is neither.\<close>

definition path_str :: "pystr \<Rightarrow> pystr" where
  "path_str p =
     (if path_root p = [] \<and> path_components p = [] then ascii ''.''
      else path_root p @ join_with 47 (path_components p))"

text \<open>\<^verbatim>\<open>s.rfind(c)\<close> for a character: the last index, or \<open>-1\<close>.\<close>

fun rfind :: "pystr \<Rightarrow> int \<Rightarrow> int" where
  "rfind [] c = -1"
| "rfind (x # xs) c =
     (let i = rfind xs c in if i \<noteq> -1 then i + 1 else if x = c then 0 else -1)"

text \<open>
  \<^verbatim>\<open>Path.stem\<close>: the name without its last suffix; a dot at the start or at the end of the
  name does not begin a suffix.
\<close>

definition path_stem :: "pystr \<Rightarrow> pystr" where
  "path_stem p =
     (let name = path_name p; i = rfind name 46
      in if 0 < i \<and> i < int (length name) - 1 then take (nat i) name else name)"

text \<open>\<^verbatim>\<open>parse_date(s) if s else None\<close>\<close>

definition parse_date_if :: "pystr option \<Rightarrow> date option" where
  "parse_date_if str_opt =
     (case str_opt of None \<Rightarrow> None | Some s \<Rightarrow> if s = [] then None else parse_date s)"

text \<open>
  \<^verbatim>\<open>parse_certificate\<close>. The text of the file comes from the PDF or OCR library; the
  function is given the text that \<^verbatim>\<open>extract_from_file\<close> returned, and the time \<open>now\<close> of
  the clock.
\<close>

definition parse_certificate ::
  "(pystr \<Rightarrow> 'f option) \<Rightarrow> 't \<Rightarrow> pystr \<Rightarrow> pystr \<Rightarrow> pystr \<Rightarrow>
   error + ('f, 't) CalibrationCertificate" where
  "parse_certificate pyfloat now file_path raw lab_name =
     (case extract_pattern raw (ascii ''certificate_number'') of Inl e \<Rightarrow> Inl e | Inr cert_number0 \<Rightarrow>
     (let cert_number =
            (case cert_number0 of
               None \<Rightarrow> ascii ''UNKNOWN-'' @ path_stem file_path
             | Some s \<Rightarrow> if s = [] then ascii ''UNKNOWN-'' @ path_stem file_path else s)
      in
     (case extract_pattern raw (ascii ''calibration_date'') of Inl e \<Rightarrow> Inl e | Inr cal_date_str \<Rightarrow>
     (case extract_pattern raw (ascii ''certificate_date'') of Inl e \<Rightarrow> Inl e | Inr cert_date_str \<Rightarrow>
     (let cal_date = parse_date_if cal_date_str;
          cert_date = parse_date_if cert_date_str
      in
     (case extract_pattern raw (ascii ''serial_number'') of Inl e \<Rightarrow> Inl e | Inr serial \<Rightarrow>
     (case extract_pattern raw (ascii ''manufacturer'') of Inl e \<Rightarrow> Inl e | Inr manufacturer_str \<Rightarrow>
     (case extract_pattern raw (ascii ''model'') of Inl e \<Rightarrow> Inl e | Inr model_str \<Rightarrow>
     (let equip =
            \<lparr>EquipmentInfo.name =
               (case model_str of
                  None \<Rightarrow> ascii ''Unknown Equipment''
                | Some s \<Rightarrow> if s = [] then ascii ''Unknown Equipment'' else s),
             manufacturer = manufacturer_str, model = model_str, serial_number = serial,
             equipment_class = None, identification_number = None\<rparr>;
          lab = \<lparr>Organization.name = lab_name, address = None, contact = None,
                 accreditation_number = None\<rparr>
      in
     (case extract_environmental_conditions pyfloat raw of Inl e \<Rightarrow> Inl e | Inr env_conditions \<Rightarrow>
     (case extract_measurement_tables pyfloat raw of Inl e \<Rightarrow> Inl e | Inr measurements \<Rightarrow>
        Inr \<lparr>certificate_number = cert_number, certificate_date = cert_date,
             calibration_date = cal_date, valid_until = None, language = ascii ''en'',
             calibration_laboratory = lab, customer = None, equipment = equip,
             environmental_conditions = env_conditions, measurement_results = measurements,
             measurement_procedure = None, traceability = None, certificate_remarks = None,
             raw_text = Some raw, extraction_timestamp = Some now,
             source_file = Some (path_str file_path)\<rparr>)))))))))))"

section \<open>The validator (agent.py)\<close>

text \<open>
  \<^verbatim>\<open>DCCAgent.validate_certificate\<close>. Dates and the conditions object are true whenever
  they are present; a list is true when it is not empty.
\<close>

definition validate_certificate :: "('f, 't) CalibrationCertificate \<Rightarrow> pystr list" where
  "validate_certificate certificate =
    (let issues = [];
         issues = (if startswith (certificate_number certificate) (ascii ''UNKNOWN'')
                   then issues @ [ascii ''Certificate number could not be extracted'']
                   else issues);
         issues = (if calibration_date certificate = None
                   then issues @ [ascii ''Calibration date is missing'']
                   else issues);
         issues = (if \<not> truthy_str (serial_number (equipment certificate))
                   then issues @ [ascii ''Equipment serial number is missing'']
                   else issues);
         issues = (if measurement_results certificate = []
                   then issues @ [ascii ''No measurement results were extracted'']
                   else if length (measurement_results certificate) < 2
                   then issues @ [ascii ''Very few measurement results extracted - manual review recommended'']
                   else issues);
         issues = (if environmental_conditions certificate = None
                   then issues @ [ascii ''Environmental conditions are missing'']
                   else issues)
     in issues)"

section \<open>The XML serializer's value element (xml_generator.py)\<close>

text \<open>
  An element of the tree: its tag, its attributes, its text and its children in document
  order.
\<close>

type_synonym attributes = "(pystr \<times> pystr) list"

datatype xml = Element (tag: pystr) (attrib: attributes) (elem_text: "pystr option")
  (children: "xml list")

text \<open>\<^verbatim>\<open>etree.SubElement(parent, tag)\<close> appends the new element to the parent's children.\<close>

definition append_child :: "xml \<Rightarrow> xml \<Rightarrow> xml" where
  "append_child parent child =
     Element (tag parent) (attrib parent) (elem_text parent) (children parent @ [child])"

definition SI_NS :: pystr where
  "SI_NS = ascii ''https://ptb.de/si''"

definition si_tag :: "pystr \<Rightarrow> pystr" where
  "si_tag t = ascii ''{'' @ SI_NS @ ascii ''}'' @ t"

text \<open>\<^verbatim>\<open>DCCXMLGenerator.UNIT_TO_SI\<close>, in the order of the dictionary literal.\<close>

definition UNIT_TO_SI :: "(pystr \<times> pystr) list" where
  "UNIT_TO_SI = [
  (ascii ''N'', [92] @ ascii ''newton''),
  (ascii ''kN'', [92] @ ascii ''kilo'' @ [92] @ ascii ''newton''),
  (ascii ''MN'', [92] @ ascii ''mega'' @ [92] @ ascii ''newton''),
  ([176] @ ascii ''C'', [92] @ ascii ''degreeCelsius''),
  (ascii ''K'', [92] @ ascii ''kelvin''),
  (ascii ''Pa'', [92] @ ascii ''pascal''),
  (ascii ''kPa'', [92] @ ascii ''kilo'' @ [92] @ ascii ''pascal''),
  (ascii ''MPa'', [92] @ ascii ''mega'' @ [92] @ ascii ''pascal''),
  (ascii ''bar'', [92] @ ascii ''bar''),
  (ascii ''mbar'', [92] @ ascii ''milli'' @ [92] @ ascii ''bar''),
  (ascii ''hPa'', [92] @ ascii ''hecto'' @ [92] @ ascii ''pascal''),
  (ascii ''m'', [92] @ ascii ''metre''),
  (ascii ''mm'', [92] @ ascii ''milli'' @ [92] @ ascii ''metre''),
  ([181] @ ascii ''m'', [92] @ ascii ''micro'' @ [92] @ ascii ''metre''),
  (ascii ''nm'', [92] @ ascii ''nano'' @ [92] @ ascii ''metre''),
  (ascii ''kg'', [92] @ ascii ''kilogram''),
  (ascii ''g'', [92] @ ascii ''gram''),
  (ascii ''mg'', [92] @ ascii ''milli'' @ [92] @ ascii ''gram''),
  (ascii ''V'', [92] @ ascii ''volt''),
  (ascii ''mV'', [92] @ ascii ''milli'' @ [92] @ ascii ''volt''),
  (ascii ''A'', [92] @ ascii ''ampere''),
  (ascii ''mA'', [92] @ ascii ''milli'' @ [92] @ ascii ''ampere''),
  ([937], [92] @ ascii ''ohm''),
  (ascii ''s'', [92] @ ascii ''second''),
  (ascii ''ms'', [92] @ ascii ''milli'' @ [92] @ ascii ''second''),
  (ascii ''min'', [92] @ ascii ''minute''),
  (ascii ''h'', [92] @ ascii ''hour''),
  (ascii ''Hz'', [92] @ ascii ''hertz''),
  (ascii ''kHz'', [92] @ ascii ''kilo'' @ [92] @ ascii ''hertz''),
  (ascii ''MHz'', [92] @ ascii ''mega'' @ [92] @ ascii ''hertz''),
  (ascii ''%'', [92] @ ascii ''percent''),
  (ascii ''%rh'', [92] @ ascii ''percent'')]"

text \<open>
  The XML library refuses some strings with a \<^verbatim>\<open>ValueError\<close>: \<^verbatim>\<open>SubElement\<close> a tag that is not
  a valid name, and the assignment to \<^verbatim>\<open>text\<close> a string that is not XML-compatible (one with
  a NUL or another control character, for instance). These two checks of the library are
  parameters of the model.
\<close>

datatype xml_error = ValueError

record xml_checks =
  valid_tag :: "pystr \<Rightarrow> bool"
  valid_text :: "pystr \<Rightarrow> bool"

text \<open>Going on when a check of the library passes, raising otherwise.\<close>

definition checked :: "bool \<Rightarrow> xml_error + 'a \<Rightarrow> xml_error + 'a" where
  "checked ok k = (if ok then k else Inl ValueError)"

text \<open>
  The block of the expanded uncertainty: the elements it adds to the value element, in
  the order in which the code creates them and sets their texts.
\<close>

definition uncertainty_elements ::
  "xml_checks \<Rightarrow> ('f \<Rightarrow> pystr) \<Rightarrow> 'f MeasuredValue \<Rightarrow> xml_error + xml list" where
  "uncertainty_elements lib fstr v =
     (case expanded_uncertainty v of
        None \<Rightarrow> Inr []
      | Some u \<Rightarrow>
          checked (valid_tag lib (si_tag (ascii ''expandedUnc'')))
         (checked (valid_tag lib (si_tag (ascii ''uncertainty'')))
         (checked (valid_text lib (fstr u))
            (case (case coverage_factor v of
                     None \<Rightarrow> Inr []
                   | Some k \<Rightarrow>
                       checked (valid_tag lib (si_tag (ascii ''coverageFactor'')))
                      (checked (valid_text lib (fstr k))
                         (Inr [Element (si_tag (ascii ''coverageFactor'')) [] (Some (fstr k)) []]))) of
               Inl e \<Rightarrow> Inl e
             | Inr factor \<Rightarrow>
                 (case (case coverage_probability v of
                          None \<Rightarrow> Inr []
                        | Some p \<Rightarrow>
                            checked (valid_tag lib (si_tag (ascii ''coverageProbability'')))
                           (checked (valid_text lib (fstr p))
                              (Inr [Element (si_tag (ascii ''coverageProbability'')) []
                                      (Some (fstr p)) []]))) of
                    Inl e \<Rightarrow> Inl e
                  | Inr probability \<Rightarrow>
                      Inr [Element (si_tag (ascii ''expandedUnc'')) [] None
                             ([Element (si_tag (ascii ''uncertainty'')) [] (Some (fstr u)) []] @
                              factor @ probability)])))))"

text \<open>
  \<^verbatim>\<open>DCCXMLGenerator._create_value_element\<close>. The parameter \<open>fstr\<close> is \<^verbatim>\<open>str\<close> on floats.
  The checks are made in the order of the statements of the code. The result is the
  created element together with the parent it was appended to, or the \<^verbatim>\<open>ValueError\<close> of
  the library (the elements appended before the error are then not kept).
\<close>

definition create_value_element ::
  "xml_checks \<Rightarrow> ('f \<Rightarrow> pystr) \<Rightarrow> xml \<Rightarrow> 'f MeasuredValue \<Rightarrow> pystr \<Rightarrow>
   xml_error + xml \<times> xml" where
  "create_value_element lib fstr parent v tg =
     checked (valid_tag lib (si_tag tg))
    (checked (valid_tag lib (si_tag (ascii ''value'')))
    (checked (valid_text lib (fstr (value v)))
      (let value_elem = Element (si_tag (ascii ''value'')) [] (Some (fstr (value v))) []
       in checked (valid_tag lib (si_tag (ascii ''unit'')))
         (let si_unit = dict_get UNIT_TO_SI (symbol (unit v)) (symbol (unit v))
          in checked (valid_text lib si_unit)
            (let unit_elem = Element (si_tag (ascii ''unit'')) [] (Some si_unit) []
             in case uncertainty_elements lib fstr v of
                  Inl e \<Rightarrow> Inl e
                | Inr unc \<Rightarrow>
                    (let real_elem = Element (si_tag tg) [] None ([value_elem, unit_elem] @ unc)
                     in Inr (real_elem, append_child parent real_elem)))))))"

text \<open>
  The strings that the library has to accept for a measured value: the tags it creates and
  the texts it sets.
\<close>

definition value_element_accepted ::
  "xml_checks \<Rightarrow> ('f \<Rightarrow> pystr) \<Rightarrow> 'f MeasuredValue \<Rightarrow> pystr \<Rightarrow> bool" where
  "value_element_accepted lib fstr v tg \<longleftrightarrow>
     valid_tag lib (si_tag tg) \<and> valid_tag lib (si_tag (ascii ''value'')) \<and>
     valid_text lib (fstr (value v)) \<and> valid_tag lib (si_tag (ascii ''unit'')) \<and>
     valid_text lib (dict_get UNIT_TO_SI (symbol (unit v)) (symbol (unit v))) \<and>
     (case expanded_uncertainty v of
        None \<Rightarrow> True
      | Some u \<Rightarrow>
          valid_tag lib (si_tag (ascii ''expandedUnc'')) \<and>
          valid_tag lib (si_tag (ascii ''uncertainty'')) \<and> valid_text lib (fstr u) \<and>
          (case coverage_factor v of
             None \<Rightarrow> True
           | Some k \<Rightarrow>
               valid_tag lib (si_tag (ascii ''coverageFactor'')) \<and> valid_text lib (fstr k)) \<and>
          (case coverage_probability v of
             None \<Rightarrow> True
           | Some p \<Rightarrow>
               valid_tag lib (si_tag (ascii ''coverageProbability'')) \<and>
               valid_text lib (fstr p)))"

text \<open>The text of the first child with a given tag (\<^verbatim>\<open>findtext\<close>).\<close>

definition child_text :: "xml \<Rightarrow> pystr \<Rightarrow> pystr option" where
  "child_text e t =
     (case List.find (\<lambda>c. tag c = t) (children e) of None \<Rightarrow> None | Some c \<Rightarrow> elem_text c)"

section \<open>Example values\<close>

text \<open>
  A certificate with the given number, serial number and results, and nothing else
  extracted.
\<close>

definition bare_certificate ::
  "pystr \<Rightarrow> pystr option \<Rightarrow> 'f MeasurementResult list \<Rightarrow> ('f, 't) CalibrationCertificate" where
  "bare_certificate number serial results =
     \<lparr>certificate_number = number, certificate_date = None, calibration_date = None,
      valid_until = None, language = ascii ''en'',
      calibration_laboratory =
        \<lparr>Organization.name = ascii ''Unknown Laboratory'', address = None, contact = None,
         accreditation_number = None\<rparr>,
      customer = None,
      equipment =
        \<lparr>EquipmentInfo.name = ascii ''Unknown Equipment'', manufacturer = None, model = None,
         serial_number = serial, equipment_class = None, identification_number = None\<rparr>,
      environmental_conditions = None, measurement_results = results,
      measurement_procedure = None, traceability = None, certificate_remarks = None,
      raw_text = None, extraction_timestamp = None, source_file = None\<rparr>"

text \<open>
  An instance of \<^verbatim>\<open>float\<close> for the examples: on the strings that the extractor converts
  (decimal digits and dots) it accepts those with at least one digit and at most one dot.
  The value is kept as the exact decimal number.
\<close>

definition decimal_float :: "pystr \<Rightarrow> rat option" where
  "decimal_float s =
     (case split_on 46 s of
        [ip] \<Rightarrow>
          if ip \<noteq> [] \<and> (\<forall>c \<in> set ip. isdecimal c) then Some (of_int (digits_value ip)) else None
      | [ip, fp] \<Rightarrow>
          if ip @ fp \<noteq> [] \<and> (\<forall>c \<in> set (ip @ fp). isdecimal c)
          then Some (of_int (digits_value (ip @ fp)) / 10 ^ length fp) else None
      | _ \<Rightarrow> None)"

text \<open>
  Three texts: two delimited rows with the same label and number; two values with units,
  the millimetres before the kilonewtons; a row whose label is separated by a tab (9), so
  that both passes give it the same name.
\<close>

definition text_two_rows :: pystr where
  "text_two_rows = ascii ''a:1;'' @ [10] @ ascii ''a:1''"

definition text_two_units :: pystr where
  "text_two_units = ascii ''x 5 mm'' @ [10] @ ascii ''y 3 kN''"

definition text_row_and_unit :: pystr where
  "text_row_and_unit = ascii ''F'' @ [9] @ ascii ''5 kN''"

definition no_unit :: MeasurementUnit where
  "no_unit = \<lparr>symbol = [], MeasurementUnit.name = None, si_base = None\<rparr>"

text \<open>
  A text with a bare token before a labeled certificate number, and a text without any
  certificate number.
\<close>

definition text_labeled_and_bare :: pystr where
  "text_labeled_and_bare = ascii ''ABC-999'' @ [10] @ ascii ''Certificate No.: CAL-2024-001''"

definition text_no_number :: pystr where
  "text_no_number = ascii ''Force 5 kN''"

text \<open>A text with a temperature and a humidity.\<close>

definition text_conditions :: pystr where
  "text_conditions =
     ascii ''Temperature: 23.5 '' @ [176] @ ascii ''C'' @ [10] @ ascii ''Humidity: 45.2 %''"

text \<open>
  An instance of the checks of the XML library for the examples. A text is refused when it
  has a control character other than tab, newline and carriage return, a surrogate, or
  one of the two code points 65534 and 65535. A tag is accepted here when it is a
  namespace in braces followed by a name of ASCII letters (the library accepts more
  names).
\<close>

definition xml_compatible :: "pystr \<Rightarrow> bool" where
  "xml_compatible s \<longleftrightarrow>
     (\<forall>c \<in> set s.
        (32 \<le> c \<or> c = 9 \<or> c = 10 \<or> c = 13) \<and> \<not> (55296 \<le> c \<and> c \<le> 57343) \<and>
        c \<noteq> 65534 \<and> c \<noteq> 65535)"

definition plain_tag :: "pystr \<Rightarrow> bool" where
  "plain_tag t \<longleftrightarrow>
     (case t of
        [] \<Rightarrow> False
      | c # cs \<Rightarrow>
          c = 123 \<and>
          (case dropWhile (\<lambda>x. x \<noteq> 125) cs of
             [] \<Rightarrow> False
           | b # local \<Rightarrow>
               local \<noteq> [] \<and>
               (\<forall>x \<in> set local. (65 \<le> x \<and> x \<le> 90) \<or> (97 \<le> x \<and> x \<le> 122))))"

definition example_checks :: xml_checks where
  "example_checks = \<lparr>valid_tag = plain_tag, valid_text = xml_compatible\<rparr>"

definition furlongs :: "rat MeasuredValue" where
  "furlongs = \<lparr>value = 5, unit = get_unit (ascii ''furlong''), expanded_uncertainty = None,
     coverage_factor = None, coverage_probability = None\<rparr>"

definition broken_unit :: "rat MeasuredValue" where
  "broken_unit = \<lparr>value = 5, unit = get_unit [0], expanded_uncertainty = None,
     coverage_factor = None, coverage_probability = None\<rparr>"


section \<open>Writing dates\<close>





section \<open>Properties of the matcher\<close>

text \<open>
  A group that every way through a pattern opens and closes is set in every match; the
  matches of a pattern that consumes text are found at strictly increasing positions.
\<close>

lemma advance_fields [simp]:
  "m_opens (advance k s) = m_opens s" "m_spans (advance k s) = m_spans s"
  by (induction k arbitrary: s) (auto split: list.splits)

lemma rx_match_spans_mono:
  "rx_match fl fb rs s = Some r \<Longrightarrow> map_of (m_spans s) g \<noteq> None \<Longrightarrow>
   map_of (m_spans r) g \<noteq> None"
proof (induction fl fb rs s arbitrary: r rule: rx_match.induct)
  case (3 fl fb cl lo hi greedy rs s)
  define n where "n = run_length (ignorecase fl) cl hi (m_rest s)"
  define counts where "counts = (if greedy then rev [lo ..< Suc n] else [lo ..< Suc n])"
  from "3.prems" have "first_some (\<lambda>k. rx_match fl fb rs (advance k s)) counts = Some r"
    by (simp only: rx_match.simps Let_def n_def counts_def)
  then obtain k where "rx_match fl fb rs (advance k s) = Some r"
    by (auto dest: first_some_SomeD)
  from "3.IH" [OF n_def counts_def this] "3.prems"(2) show ?case by simp
qed (auto split: if_splits option.splits list.splits)

lemma closes_span:
  "closes g rs \<Longrightarrow> map_of (m_opens s) g \<noteq> None \<Longrightarrow> rx_match fl fb rs s = Some r \<Longrightarrow>
   map_of (m_spans r) g \<noteq> None"
proof (induction fl fb rs s arbitrary: r rule: rx_match.induct)
  case (3 fl fb cl lo hi greedy rs s)
  define n where "n = run_length (ignorecase fl) cl hi (m_rest s)"
  define counts where "counts = (if greedy then rev [lo ..< Suc n] else [lo ..< Suc n])"
  from "3.prems" have "first_some (\<lambda>k. rx_match fl fb rs (advance k s)) counts = Some r"
    by (simp only: rx_match.simps Let_def n_def counts_def)
  then obtain k where "rx_match fl fb rs (advance k s) = Some r"
    by (auto dest: first_some_SomeD)
  from "3.IH" [OF n_def counts_def _ _ this] "3.prems" show ?case by simp
next
  case (5 fl fb h rs s)
  show ?case
  proof (cases "map_of (m_opens s) h")
    case None
    with "5.prems" have "h \<noteq> g" by auto
    with "5.prems" None "5.IH"(1) show ?thesis by auto
  next
    case (Some b)
    with "5.prems" have m: "rx_match fl fb rs (s\<lparr>m_spans := (h, b, m_pos s) # m_spans s\<rparr>) = Some r"
      by simp
    show ?thesis
    proof (cases "h = g")
      case True
      from rx_match_spans_mono [OF m, of g] True show ?thesis by simp
    next
      case False
      with "5.prems" "5.IH"(2) [OF Some _ _ m] show ?thesis by simp
    qed
  qed
qed (auto split: if_splits option.splits list.splits)

lemma always_captures_span:
  "always_captures g rs \<Longrightarrow> rx_match fl fb rs s = Some r \<Longrightarrow> map_of (m_spans r) g \<noteq> None"
proof (induction fl fb rs s arbitrary: r rule: rx_match.induct)
  case (3 fl fb cl lo hi greedy rs s)
  define n where "n = run_length (ignorecase fl) cl hi (m_rest s)"
  define counts where "counts = (if greedy then rev [lo ..< Suc n] else [lo ..< Suc n])"
  from "3.prems" have "first_some (\<lambda>k. rx_match fl fb rs (advance k s)) counts = Some r"
    by (simp only: rx_match.simps Let_def n_def counts_def)
  then obtain k where "rx_match fl fb rs (advance k s) = Some r"
    by (auto dest: first_some_SomeD)
  from "3.IH" [OF n_def counts_def _ this] "3.prems" show ?case by simp
next
  case (4 fl fb h rs s)
  from "4.prems" have m: "rx_match fl fb rs (s\<lparr>m_opens := (h, m_pos s) # m_opens s\<rparr>) = Some r"
    by simp
  from "4.prems"(1) consider "h = g" "closes g rs" | "always_captures g rs" by auto
  then show ?case
  proof cases
    case 1
    then show ?thesis using closes_span [OF _ _ m, of g] by simp
  next
    case 2
    then show ?thesis using "4.IH" [OF _ m] by simp
  qed
qed (auto split: if_splits option.splits list.splits)

lemma consumes_advances:
  "consumes rs \<Longrightarrow> rx_match fl fb rs s = Some r \<Longrightarrow> m_pos s < m_pos r"
proof (induction fl fb rs s arbitrary: r rule: rx_match.induct)
  case (2 fl fb cl rs s)
  then obtain c cs where cc: "m_rest s = c # cs"
    and m: "rx_match fl fb rs (advance 1 s) = Some r"
    by (auto split: list.splits if_splits)
  from rx_match_consumes [OF m] advance_rest [of 1 s] cc show ?case by auto
next
  case (3 fl fb cl lo hi greedy rs s)
  define n where "n = run_length (ignorecase fl) cl hi (m_rest s)"
  define counts where "counts = (if greedy then rev [lo ..< Suc n] else [lo ..< Suc n])"
  from "3.prems" have "first_some (\<lambda>k. rx_match fl fb rs (advance k s)) counts = Some r"
    by (simp only: rx_match.simps Let_def n_def counts_def)
  then obtain k where k: "k \<in> set counts" "rx_match fl fb rs (advance k s) = Some r"
    by (auto dest: first_some_SomeD)
  from k(1) have kn: "lo \<le> k" "k \<le> n" by (auto simp: counts_def split: if_splits)
  then have kl: "k \<le> length (m_rest s)"
    using run_length_le [of "ignorecase fl" cl hi "m_rest s"] by (simp add: n_def)
  from "3.prems"(1) consider "0 < lo" | "consumes rs" by auto
  then show ?case
  proof cases
    case 1
    with kn rx_match_consumes [OF k(2)] advance_rest [OF kl] show ?thesis by auto
  next
    case 2
    from "3.IH" [OF n_def counts_def 2 k(2)] advance_rest [OF kl] show ?thesis by auto
  qed
qed (auto split: if_splits option.splits list.splits)

lemma rx_search_from_props:
  "rx_search_from fl fb rs s = Some (b, r) \<Longrightarrow>
     (always_captures g rs \<longrightarrow> map_of (m_spans r) g \<noteq> None) \<and>
     (consumes rs \<longrightarrow> b < m_pos r)"
proof (induction fl fb rs s rule: rx_search_from.induct)
  case (1 fl fb rs s)
  show ?case
  proof (cases "rx_match fl fb rs s")
    case (Some r')
    with "1.prems" have "r' = r" "b = m_pos s"
      by (auto simp: rx_search_from.simps [of fl fb rs s])
    with Some always_captures_span [of g rs fl fb s r] consumes_advances [of rs fl fb s r]
    show ?thesis by auto
  next
    case None
    with "1.prems" obtain c cs where cc: "m_rest s = c # cs"
      and m: "rx_search_from fl None rs (advance 1 s) = Some (b, r)"
      by (auto simp: rx_search_from.simps [of fl fb rs s] split: list.splits)
    from "1.IH" [OF None cc m] show ?thesis .
  qed
qed

lemma finditer_from_props:
  "\<forall>(b, r) \<in> set (finditer_from fl rs s adv).
      m_pos s \<le> b \<and> (always_captures g rs \<longrightarrow> map_of (m_spans r) g \<noteq> None)"
  "consumes rs \<Longrightarrow> sorted_wrt (<) (map fst (finditer_from fl rs s adv))"
proof (induction fl rs s adv rule: finditer_from.induct)
  case (1 fl rs s must_advance)
  let ?fb = "if must_advance then Some (m_pos s) else None"
  {
    case 1
    show ?case
    proof (cases "rx_search_from fl ?fb rs s")
      case None
      then show ?thesis by (simp add: finditer_from.simps [of fl rs s must_advance])
    next
      case (Some br)
      obtain b r where br: "br = (b, r)" by (cases br)
      note ih = "1.IH"(1) [OF Some [unfolded br] refl]
      from rx_search_from_consumes [OF Some [unfolded br]] rx_search_from_props [OF Some [unfolded br], of g]
      have p: "m_pos s \<le> b" "b \<le> m_pos r" "always_captures g rs \<longrightarrow> map_of (m_spans r) g \<noteq> None"
        by auto
      from ih p Some br show ?thesis
        by (auto simp: finditer_from.simps [of fl rs s must_advance])
    qed
  next
    case 2
    show ?case
    proof (cases "rx_search_from fl ?fb rs s")
      case None
      then show ?thesis by (simp add: finditer_from.simps [of fl rs s must_advance])
    next
      case (Some br)
      obtain b r where br: "br = (b, r)" by (cases br)
      note ih1 = "1.IH"(1) [OF Some [unfolded br] refl]
      note ih2 = "1.IH"(2) [OF Some [unfolded br] refl 2]
      from rx_search_from_props [OF Some [unfolded br], of g] 2
      have p: "b < m_pos r" by auto
      from ih1 ih2 p Some br show ?thesis
        by (fastforce simp: finditer_from.simps [of fl rs s must_advance])
    qed
  }
qed

lemma re_finditer_groups:
  "always_captures g rs \<Longrightarrow> m \<in> set (re_finditer fl rs s) \<Longrightarrow> \<exists>x. group_of m g = Some x"
proof -
  assume a: "always_captures g rs" and "m \<in> set (re_finditer fl rs s)"
  then obtain b r where br: "(b, r) \<in> set (finditer_from fl rs (initial s) False)"
    and m: "m = mk_match rs s (b, r)"
    by (auto simp: re_finditer_def)
  from finditer_from_props(1) [of fl rs "initial s" False g] br a
  have "map_of (m_spans r) g \<noteq> None" by auto
  with m show ?thesis
    by (auto simp: group_of_def mk_match_def)
qed

lemma re_finditer_sorted:
  "consumes rs \<Longrightarrow> sorted_wrt (<) (map mt_start (re_finditer fl rs s))"
proof -
  assume "consumes rs"
  from finditer_from_props(2) [OF this, of fl "initial s" False]
  have "sorted_wrt (<) (map fst (finditer_from fl rs (initial s) False))" .
  moreover have "map mt_start (re_finditer fl rs s) = map fst (finditer_from fl rs (initial s) False)"
    by (simp add: re_finditer_def mk_match_def)
  ultimately show ?thesis by simp
qed

lemma re_search_groups:
  "always_captures g rs \<Longrightarrow> re_search fl rs s = Some m \<Longrightarrow> \<exists>x. group_of m g = Some x"
proof -
  assume a: "always_captures g rs" and "re_search fl rs s = Some m"
  then obtain b r where br: "rx_search_from fl None rs (initial s) = Some (b, r)"
    and m: "m = mk_match rs s (b, r)"
    by (auto simp: re_search_def)
  from rx_search_from_props [OF br, of g] a have "map_of (m_spans r) g \<noteq> None" by simp
  with m show ?thesis
    by (auto simp: group_of_def mk_match_def)
qed

section \<open>Properties of the string functions\<close>

lemma length_strip: "length (strip s) \<le> length s"
proof -
  have "length (dropWhile isspace (rev (dropWhile isspace s))) \<le> length (rev (dropWhile isspace s))"
    by (rule length_dropWhile_le)
  also have "\<dots> \<le> length s"
    by (simp add: length_dropWhile_le)
  finally show ?thesis by (simp add: strip_def)
qed

lemma strip_last: "strip s \<noteq> [] \<Longrightarrow> \<not> isspace (last (strip s))"
proof -
  assume ne: "strip s \<noteq> []"
  let ?t = "dropWhile isspace (rev (dropWhile isspace s))"
  from ne have t: "?t \<noteq> []" by (simp add: strip_def)
  then have "\<not> isspace (hd ?t)" by (rule hd_dropWhile)
  moreover from t have "last (strip s) = hd ?t"
    by (simp add: strip_def last_rev)
  ultimately show ?thesis by simp
qed

lemma strip_nonempty: "s \<noteq> [] \<Longrightarrow> \<not> isspace (last s) \<Longrightarrow> strip s \<noteq> []"
proof -
  assume s: "s \<noteq> []" and l: "\<not> isspace (last s)"
  from s have "last s \<in> set s" by (rule last_in_set)
  with l have d: "dropWhile isspace s \<noteq> []"
    by (auto simp: dropWhile_eq_Nil_conv)
  then have "\<not> isspace (hd (dropWhile isspace s))" by (rule hd_dropWhile)
  moreover from d have "hd (dropWhile isspace s) \<in> set (rev (dropWhile isspace s))"
    by simp
  ultimately have "\<exists>x \<in> set (rev (dropWhile isspace s)). \<not> isspace x"
    by blast
  then have "dropWhile isspace (rev (dropWhile isspace s)) \<noteq> []"
    by (simp add: dropWhile_eq_Nil_conv)
  then show ?thesis by (simp add: strip_def)
qed

lemma split_on_nonempty [simp]: "split_on c s \<noteq> []"
  by (induction s) (auto split: list.splits)

lemma last_split_on:
  "length (last (split_on c s)) \<le> length s \<and>
   (s \<noteq> [] \<and> last s \<noteq> c \<longrightarrow> last (split_on c s) \<noteq> [] \<and> last (last (split_on c s)) = last s)"
proof (induction s)
  case Nil
  then show ?case by simp
next
  case (Cons x xs)
  obtain p ps where sp: "split_on c xs = p # ps"
    using split_on_nonempty [of c xs] by (cases "split_on c xs") auto
  show ?case
  proof (cases "xs = []")
    case True
    then show ?thesis by simp
  next
    case False
    note xs = this
    show ?thesis
    proof (cases ps)
      case Nil
      with sp Cons.IH xs show ?thesis by (cases "x = c") auto
    next
      case (Cons q qs)
      with sp Cons.IH xs show ?thesis by (cases "x = c") auto
    qed
  qed
qed

section \<open>Properties of measurement mining\<close>

subsection \<open>The loops\<close>

lemma row_result_Inr:
  "group_of m 1 \<noteq> None \<Longrightarrow> group_of m 2 \<noteq> None \<Longrightarrow> \<exists>x. row_result pyfloat m = Inr x"
  by (auto simp: row_result_def Let_def split: option.splits)

lemma unit_result_Inr:
  "group_of m 1 \<noteq> None \<Longrightarrow> \<exists>x. unit_result pyfloat text u m = Inr x"
  by (auto simp: unit_result_def Let_def split: option.splits)

lemma row_loop_eq:
  "\<forall>m \<in> set ms. \<exists>x. row_result pyfloat m = Inr x \<Longrightarrow>
   row_loop pyfloat ms acc = Inr (acc @ concat (map (\<lambda>m. appended (row_result pyfloat m)) ms))"
proof (induction ms arbitrary: acc)
  case Nil
  then show ?case by simp
next
  case (Cons m ms)
  then obtain x where x: "row_result pyfloat m = Inr x" by auto
  from Cons have ih: "\<And>acc. row_loop pyfloat ms acc =
      Inr (acc @ concat (map (\<lambda>m. appended (row_result pyfloat m)) ms))"
    by simp
  show ?case
    by (cases x) (simp_all add: x ih appended_def)
qed

lemma keep_new_append: "keep_new acc (xs @ ys) = keep_new (keep_new acc xs) ys"
  by (induction xs arbitrary: acc) simp_all

lemma unit_match_loop_eq:
  "\<forall>m \<in> set ms. \<exists>x. unit_result pyfloat text u m = Inr x \<Longrightarrow>
   unit_match_loop pyfloat text u ms acc =
     Inr (keep_new acc (concat (map (\<lambda>m. appended (unit_result pyfloat text u m)) ms)))"
proof (induction ms arbitrary: acc)
  case Nil
  then show ?case by simp
next
  case (Cons m ms)
  then obtain x where x: "unit_result pyfloat text u m = Inr x" by auto
  from Cons have ih: "\<And>acc. unit_match_loop pyfloat text u ms acc =
      Inr (keep_new acc (concat (map (\<lambda>m. appended (unit_result pyfloat text u m)) ms)))"
    by simp
  show ?case
    by (cases x) (simp_all add: x ih appended_def)
qed

lemma map_snd_unit_hits:
  "map snd (unit_hits pyfloat text p u) =
     concat (map (\<lambda>m. appended (unit_result pyfloat text u m)) (re_finditer no_flags p text))"
  by (simp add: unit_hits_def map_concat comp_def)

lemma unit_pattern_loop_eq:
  "\<forall>(p, u) \<in> set ps. always_captures 1 p \<Longrightarrow>
   unit_pattern_loop pyfloat text ps acc =
     Inr (keep_new acc (map snd (concat (map (\<lambda>(p, u). unit_hits pyfloat text p u) ps))))"
proof (induction ps arbitrary: acc)
  case Nil
  then show ?case by simp
next
  case (Cons pu ps)
  obtain p u where pu: "pu = (p, u)" by (cases pu)
  from Cons.prems pu have cap: "always_captures 1 p" by simp
  have "\<forall>m \<in> set (re_finditer no_flags p text). \<exists>x. unit_result pyfloat text u m = Inr x"
    using re_finditer_groups [OF cap] unit_result_Inr by blast
  from unit_match_loop_eq [OF this]
  have step: "unit_match_loop pyfloat text u (re_finditer no_flags p text) acc =
      Inr (keep_new acc (map snd (unit_hits pyfloat text p u)))"
    by (simp add: map_snd_unit_hits)
  from Cons have ih: "\<And>acc. unit_pattern_loop pyfloat text ps acc =
      Inr (keep_new acc (map snd (concat (map (\<lambda>(p, u). unit_hits pyfloat text p u) ps))))"
    by simp
  show ?case
    by (simp add: pu step ih keep_new_append)
qed

lemma measurement_pattern_static:
  "always_captures 1 measurement_pattern" "always_captures 2 measurement_pattern"
  "consumes measurement_pattern"
  by (simp_all add: measurement_pattern_def group_def optional_def star_def plus_def lazy_plus_def
      opt_def)

lemma unit_patterns_static:
  "\<forall>(p, u) \<in> set UNIT_PATTERNS. always_captures 1 p \<and> consumes p \<and> length u \<le> 4"
  by code_simp

lemma extract_measurement_tables_eq:
  "extract_measurement_tables pyfloat text =
     Inr (keep_new (delimited_rows pyfloat text) (unit_candidates pyfloat text))"
proof -
  have "\<forall>m \<in> set (row_matches text). \<exists>x. row_result pyfloat m = Inr x"
    using re_finditer_groups [OF measurement_pattern_static(1)]
      re_finditer_groups [OF measurement_pattern_static(2)] row_result_Inr
    unfolding row_matches_def by (metis option.distinct(1))
  from row_loop_eq [OF this, of "[]"]
  have rows: "row_loop pyfloat (row_matches text) [] = Inr (delimited_rows pyfloat text)"
    by (simp add: delimited_rows_def)
  have "\<forall>(p, u) \<in> set UNIT_PATTERNS. always_captures 1 p"
    using unit_patterns_static by auto
  from unit_pattern_loop_eq [OF this]
  have units: "\<And>acc. unit_pattern_loop pyfloat text UNIT_PATTERNS acc =
      Inr (keep_new acc (unit_candidates pyfloat text))"
    by (simp add: unit_candidates_def all_unit_hits_def)
  show ?thesis
    using rows units
    by (simp add: extract_measurement_tables_def row_matches_def)
qed

lemma keep_new_survivors: "keep_new acc cs = acc @ survivors acc cs"
  by (induction cs arbitrary: acc) simp_all

lemma survivors_subseq: "subseq (survivors acc cs) cs"
  by (induction cs arbitrary: acc) (auto intro: subseq_Cons')

lemma is_duplicate_count:
  "is_duplicate acc c \<longleftrightarrow>
     0 < count_named (MeasurementResult.name c) (value (measured_value c)) acc"
  by (auto simp: is_duplicate_def count_named_def filter_empty_conv)

lemma count_named_append [simp]:
  "count_named n v (xs @ ys) = count_named n v xs + count_named n v ys"
  by (simp add: count_named_def)

lemma count_named_keep_new:
  "count_named n v (keep_new acc cs) =
     (if 0 < count_named n v acc then count_named n v acc
      else if \<exists>c \<in> set cs. MeasurementResult.name c = n \<and> value (measured_value c) = v then 1
      else 0)"
proof (induction cs arbitrary: acc)
  case Nil
  then show ?case by simp
next
  case (Cons c cs)
  show ?case
  proof (cases "is_duplicate acc c")
    case True
    then have d: "0 < count_named (MeasurementResult.name c) (value (measured_value c)) acc"
      by (simp add: is_duplicate_count)
    from True Cons.IH [of acc] d show ?thesis
      by auto
  next
    case False
    then have d: "count_named (MeasurementResult.name c) (value (measured_value c)) acc = 0"
      by (simp add: is_duplicate_count)
    have one: "count_named n v [c] =
        (if MeasurementResult.name c = n \<and> value (measured_value c) = v then 1 else 0)"
      by (simp add: count_named_def)
    from False Cons.IH [of "acc @ [c]"] d one show ?thesis
      by auto
  qed
qed

subsection \<open>The names of the results\<close>

lemma isspace_newline: "isspace 10"
  by (simp add: isspace_def space_chars_def)

lemma new_result_fields [simp]:
  "MeasurementResult.name (new_result n v u) = n"
  "value (measured_value (new_result n v u)) = v"
  "unit (measured_value (new_result n v u)) = u"
  "reference_value (new_result n v u) = None"
  "deviation (new_result n v u) = None"
  "remarks (new_result n v u) = None"
  by (simp_all add: new_result_def)

lemma row_result_well_named:
  "row_result pyfloat m = Inr (Some r) \<Longrightarrow> well_named r"
  by (auto simp: row_result_def Let_def well_named_def split: option.splits if_splits)

lemma context_name:
  assumes "ctx = strip (slice text (nat (max 0 (int b - 50))) b)" "ctx \<noteq> []"
  shows "strip (last (split_on 10 ctx)) \<noteq> [] \<and>
         length (strip (last (split_on 10 ctx))) \<le> 50"
proof -
  have "length ctx \<le> length (slice text (nat (max 0 (int b - 50))) b)"
    unfolding assms(1) by (rule length_strip)
  also have "\<dots> \<le> 50"
    by (auto simp: slice_def)
  finally have len: "length ctx \<le> 50" .
  from assms have ns: "\<not> isspace (last ctx)"
    using strip_last by blast
  with isspace_newline have "last ctx \<noteq> 10" by auto
  with assms(2) last_split_on [of 10 ctx]
  have l: "last (split_on 10 ctx) \<noteq> []"
    "last (last (split_on 10 ctx)) = last ctx"
    "length (last (split_on 10 ctx)) \<le> length ctx"
    by auto
  from l(1,2) ns have "strip (last (split_on 10 ctx)) \<noteq> []"
    by (simp add: strip_nonempty)
  moreover have "length (strip (last (split_on 10 ctx))) \<le> 50"
    using length_strip [of "last (split_on 10 ctx)"] l(3) len by linarith
  ultimately show ?thesis by simp
qed

lemma unit_result_well_named:
  assumes "unit_result pyfloat text u m = Inr (Some r)" "length u \<le> 4"
  shows "well_named r"
proof -
  define ctx where "ctx = strip (slice text (nat (max 0 (int (mt_start m) - 50))) (mt_start m))"
  define name1 where "name1 = (if ctx \<noteq> [] then strip (last (split_on 10 ctx))
      else measurement_label u)"
  define name2 where "name2 = (if length name1 > 100 then measurement_label u else name1)"
  from assms(1) have "\<exists>v. r = new_result name2 v (get_unit u)"
    unfolding unit_result_def Let_def name2_def name1_def ctx_def
    by (auto split: option.splits)
  then obtain v where r: "r = new_result name2 v (get_unit u)" ..
  have lab: "measurement_label u \<noteq> []" "length (measurement_label u) \<le> 100"
    using assms(2) by (simp_all add: measurement_label_def ascii_def)
  have "name1 \<noteq> [] \<and> length name1 \<le> 100"
  proof (cases "ctx = []")
    case True
    with lab show ?thesis by (simp add: name1_def)
  next
    case False
    from context_name [OF ctx_def False] False show ?thesis
      by (simp add: name1_def)
  qed
  then have "name2 \<noteq> [] \<and> length name2 \<le> 100"
    by (simp add: name2_def)
  with r show ?thesis by (simp add: well_named_def)
qed

lemma set_survivors: "set (survivors acc cs) \<subseteq> set cs"
  by (induction cs arbitrary: acc) auto

lemma set_keep_new: "set (keep_new acc cs) \<subseteq> set acc \<union> set cs"
  using set_survivors [of acc cs] by (auto simp: keep_new_survivors)

lemma delimited_rows_well_named: "r \<in> set (delimited_rows pyfloat text) \<Longrightarrow> well_named r"
  by (auto simp: delimited_rows_def appended_def row_result_well_named
      split: sum.splits option.splits)

lemma unit_candidates_well_named:
  assumes "r \<in> set (unit_candidates pyfloat text)"
  shows "well_named r"
proof -
  from assms obtain p u m where pu: "(p, u) \<in> set UNIT_PATTERNS"
    and r: "r \<in> set (appended (unit_result pyfloat text u m))"
    by (auto simp: unit_candidates_def all_unit_hits_def unit_hits_def)
  from pu unit_patterns_static have "length u \<le> 4" by auto
  moreover from r have "unit_result pyfloat text u m = Inr (Some r)"
    by (auto simp: appended_def split: sum.splits option.splits)
  ultimately show ?thesis by (simp add: unit_result_well_named)
qed

subsection \<open>The positions of the unit-anchored results\<close>

lemma length_appended: "length (appended x) \<le> 1"
  by (simp add: appended_def split: sum.splits option.splits)

lemma unit_hits_sorted:
  assumes "sorted_wrt (<) (map mt_start ms)"
  shows "sorted_wrt (<) (map fst (concat (map (\<lambda>m. map (Pair (mt_start m)) (appended (f m))) ms)))"
  using assms
proof (induction ms)
  case Nil
  then show ?case by simp
next
  case (Cons m ms)
  have "appended (f m) = [] \<or> (\<exists>x. appended (f m) = [x])"
    using length_appended [of "f m"] by (cases "appended (f m)") auto
  with Cons show ?case
    by (auto simp: sorted_wrt_append comp_def)
qed

section \<open>Properties of the unit registry\<close>

lemma common_units_distinct: "distinct (map fst COMMON_UNITS)"
  by (simp add: COMMON_UNITS_def ascii_def)


text \<open>
  C3. \<open>get_unit\<close> is a total function. For every entry of the fixed table it returns
  that entry, whose symbol is the key and whose name is present; the SI-base string is the
  one written in the table, where the degree Fahrenheit, the percent, the parts per million
  and the percent relative humidity have none. For a symbol that is not a key it returns
  the descriptor with that symbol and neither name nor SI base.
\<close>

theorem get_unit_resolves:
  "(\<forall>(k, u) \<in> set COMMON_UNITS.
      get_unit k = u \<and> symbol u = k \<and> MeasurementUnit.name u \<noteq> None) \<and>
   (sy \<notin> fst ` set COMMON_UNITS \<longrightarrow>
      get_unit sy = \<lparr>symbol = sy, MeasurementUnit.name = None, si_base = None\<rparr>) \<and>
   (\<forall>(k, u) \<in> set COMMON_UNITS.
      si_base u = None \<longleftrightarrow>
        k \<in> set [[176] @ ascii ''F'', ascii ''%'', ascii ''ppm'', ascii ''%rh''])"
proof -
  have a: "\<forall>(k, u) \<in> set COMMON_UNITS.
      get_unit k = u \<and> symbol u = k \<and> MeasurementUnit.name u \<noteq> None"
  proof (intro ballI)
    fix x assume x: "x \<in> set COMMON_UNITS"
    obtain k u where ku: "x = (k, u)" by (cases x)
    have "map_of COMMON_UNITS k = Some u"
      using x ku common_units_distinct by (simp add: map_of_is_SomeI)
    then have g: "get_unit k = u" by (simp add: get_unit_def)
    have "\<forall>(k, u) \<in> set COMMON_UNITS. symbol u = k \<and> MeasurementUnit.name u \<noteq> None"
      by (simp add: COMMON_UNITS_def)
    with x ku g
    show "case x of (k, u) \<Rightarrow> get_unit k = u \<and> symbol u = k \<and> MeasurementUnit.name u \<noteq> None"
      by auto
  qed
  have b: "sy \<notin> fst ` set COMMON_UNITS \<longrightarrow>
      get_unit sy = \<lparr>symbol = sy, MeasurementUnit.name = None, si_base = None\<rparr>"
  proof
    assume "sy \<notin> fst ` set COMMON_UNITS"
    then have "map_of COMMON_UNITS sy = None"
      by (simp add: map_of_eq_None_iff)
    then show "get_unit sy = \<lparr>symbol = sy, MeasurementUnit.name = None, si_base = None\<rparr>"
      by (simp add: get_unit_def)
  qed
  have c: "\<forall>(k, u) \<in> set COMMON_UNITS.
      si_base u = None \<longleftrightarrow>
        k \<in> set [[176] @ ascii ''F'', ascii ''%'', ascii ''ppm'', ascii ''%rh'']"
    by (simp add: COMMON_UNITS_def ascii_def)
  from a b c show ?thesis by blast
qed

theorem get_unit_resolves_witness:
  "get_unit (ascii ''kN'') =
     \<lparr>symbol = ascii ''kN'', MeasurementUnit.name = Some (ascii ''kilonewton''),
      si_base = Some (ascii ''10'' @ [179, 183] @ ascii ''kg'' @ [183] @ ascii ''m/s'' @ [178])\<rparr> \<and>
   get_unit ([176] @ ascii ''F'') =
     \<lparr>symbol = [176] @ ascii ''F'', MeasurementUnit.name = Some (ascii ''degree Fahrenheit''),
      si_base = None\<rparr> \<and>
   ascii ''furlong'' \<notin> fst ` set COMMON_UNITS \<and>
   get_unit (ascii ''furlong'') =
     \<lparr>symbol = ascii ''furlong'', MeasurementUnit.name = None, si_base = None\<rparr>"
proof -
  have a: "(ascii ''kN'', \<lparr>symbol = ascii ''kN'', MeasurementUnit.name = Some (ascii ''kilonewton''),
      si_base = Some (ascii ''10'' @ [179, 183] @ ascii ''kg'' @ [183] @ ascii ''m/s'' @ [178])\<rparr>)
      \<in> set COMMON_UNITS"
    by (simp add: COMMON_UNITS_def)
  have b: "([176] @ ascii ''F'', \<lparr>symbol = [176] @ ascii ''F'',
      MeasurementUnit.name = Some (ascii ''degree Fahrenheit''), si_base = None\<rparr>)
      \<in> set COMMON_UNITS"
    by (simp add: COMMON_UNITS_def)
  have c: "ascii ''furlong'' \<notin> fst ` set COMMON_UNITS"
    by (simp add: COMMON_UNITS_def ascii_def)
  note r = get_unit_resolves [of "ascii ''furlong''"]
  from r a have "get_unit (ascii ''kN'') = \<lparr>symbol = ascii ''kN'',
      MeasurementUnit.name = Some (ascii ''kilonewton''),
      si_base = Some (ascii ''10'' @ [179, 183] @ ascii ''kg'' @ [183] @ ascii ''m/s'' @ [178])\<rparr>"
    by fast
  moreover from r b have "get_unit ([176] @ ascii ''F'') = \<lparr>symbol = [176] @ ascii ''F'',
      MeasurementUnit.name = Some (ascii ''degree Fahrenheit''), si_base = None\<rparr>"
    by fast
  moreover from r c have "get_unit (ascii ''furlong'') =
      \<lparr>symbol = ascii ''furlong'', MeasurementUnit.name = None, si_base = None\<rparr>"
    by fast
  ultimately show ?thesis using c by simp
qed

subsection \<open>Evaluated examples\<close>

lemma two_rows_rows:
  "delimited_rows decimal_float text_two_rows =
     [new_result (ascii ''a'') 1 no_unit, new_result (ascii ''a'') 1 no_unit]"
  by code_simp

lemma two_rows_hits: "all_unit_hits decimal_float text_two_rows = []"
  by code_simp

lemma two_units_rows: "delimited_rows decimal_float text_two_units = []"
  by code_simp

lemma two_units_hits:
  "all_unit_hits decimal_float text_two_units =
     [(9, new_result (ascii ''y'') 3 (get_unit (ascii ''kN''))),
      (2, new_result (ascii ''x'') 5 (get_unit (ascii ''mm'')))]"
  by code_simp

lemma row_and_unit_rows:
  "delimited_rows decimal_float text_row_and_unit =
     [new_result (ascii ''F'') 5 (get_unit (ascii ''kN''))]"
  by code_simp

lemma row_and_unit_hits:
  "all_unit_hits decimal_float text_row_and_unit =
     [(2, new_result (ascii ''F'') 5 (get_unit (ascii ''kN'')))]"
  by code_simp

lemma ascii_neq: "ascii ''y'' \<noteq> ascii ''x''" "ascii ''x'' \<noteq> ascii ''y''"
  by (simp_all add: ascii_def)

subsection \<open>Deduplication\<close>

text \<open>
  The first loop appends a result for every delimited row, without looking at the results
  it already has. The text \<open>text_two_rows\<close> has two rows \<^verbatim>\<open>a:1\<close> (the semicolon ends the
  match of the first row, which would otherwise run into the next line); both are returned,
  so that the sequence has two results with the name \<^verbatim>\<open>a\<close> and the value 1.
\<close>

theorem deduplication_counterexample:
  "delimited_rows decimal_float text_two_rows =
     [new_result (ascii ''a'') 1 no_unit, new_result (ascii ''a'') 1 no_unit] \<and>
   extract_measurement_tables decimal_float text_two_rows =
     Inr [new_result (ascii ''a'') 1 no_unit, new_result (ascii ''a'') 1 no_unit] \<and>
   \<not> spec_deduplicated decimal_float text_two_rows"
proof -
  have out: "extract_measurement_tables decimal_float text_two_rows =
     Inr [new_result (ascii ''a'') 1 no_unit, new_result (ascii ''a'') 1 no_unit]"
    by (simp add: extract_measurement_tables_eq two_rows_rows unit_candidates_def two_rows_hits)
  have "\<not> spec_deduplicated decimal_float text_two_rows"
    by (simp add: spec_deduplicated_def out two_rows_rows unit_candidates_def two_rows_hits
        count_named_def)
  with out two_rows_rows show ?thesis by simp
qed

text \<open>
  C1 (as amended). The function returns for every text, and only the second pass
  deduplicates: a unit-anchored result is appended unless an earlier result has its name
  and value. So for every name and value, the returned sequence has as many results with
  them as the delimited-row pass produced, when it produced any; otherwise it has exactly
  one if some unit-anchored match gives that name and value, and none if not.
\<close>

theorem extract_measurement_tables_deduplication:
  "case extract_measurement_tables pyfloat text of
     Inl e \<Rightarrow> False
   | Inr out \<Rightarrow>
       (\<forall>n v. count_named n v out =
          (if 0 < count_named n v (delimited_rows pyfloat text)
           then count_named n v (delimited_rows pyfloat text)
           else if \<exists>c \<in> set (unit_candidates pyfloat text).
                     MeasurementResult.name c = n \<and> value (measured_value c) = v
           then 1 else 0))"
  by (simp add: extract_measurement_tables_eq count_named_keep_new)

theorem extract_measurement_tables_deduplication_witness:
  "extract_measurement_tables decimal_float text_row_and_unit =
     Inr [new_result (ascii ''F'') 5 (get_unit (ascii ''kN''))] \<and>
   unit_candidates decimal_float text_row_and_unit =
     [new_result (ascii ''F'') 5 (get_unit (ascii ''kN''))] \<and>
   count_named (ascii ''F'') 5 (delimited_rows decimal_float text_row_and_unit) = 1 \<and>
   count_named (ascii ''F'') 5 [new_result (ascii ''F'') 5 (get_unit (ascii ''kN'')) :: rat MeasurementResult] = 1"
proof -
  have out: "extract_measurement_tables decimal_float text_row_and_unit =
     Inr [new_result (ascii ''F'') 5 (get_unit (ascii ''kN''))]"
    by (simp add: extract_measurement_tables_eq row_and_unit_rows unit_candidates_def
        row_and_unit_hits is_duplicate_def)
  have rows: "count_named (ascii ''F'') 5 (delimited_rows decimal_float text_row_and_unit) = 1"
    by (simp add: row_and_unit_rows count_named_def)
  from extract_measurement_tables_deduplication [of decimal_float text_row_and_unit]
  have "count_named (ascii ''F'') 5 [new_result (ascii ''F'') 5 (get_unit (ascii ''kN'')) :: rat MeasurementResult] =
      count_named (ascii ''F'') 5 (delimited_rows decimal_float text_row_and_unit)"
    unfolding out using rows by simp
  with out rows show ?thesis
    by (simp add: unit_candidates_def row_and_unit_hits)
qed

subsection \<open>Order\<close>

text \<open>
  The second pass runs pattern after pattern. In \<open>text_two_units\<close> the millimetres come
  first in the text (position 2) and the kilonewtons second (position 9), but the
  kilonewton pattern is the first of the list: its result is returned first.
\<close>

theorem text_order_counterexample:
  "all_unit_hits decimal_float text_two_units =
     [(9, new_result (ascii ''y'') 3 (get_unit (ascii ''kN''))),
      (2, new_result (ascii ''x'') 5 (get_unit (ascii ''mm'')))] \<and>
   extract_measurement_tables decimal_float text_two_units =
     Inr [new_result (ascii ''y'') 3 (get_unit (ascii ''kN'')),
          new_result (ascii ''x'') 5 (get_unit (ascii ''mm''))] \<and>
   spec_text_order decimal_float text_two_units =
     [new_result (ascii ''x'') 5 (get_unit (ascii ''mm'')),
      new_result (ascii ''y'') 3 (get_unit (ascii ''kN''))] \<and>
   extract_measurement_tables decimal_float text_two_units \<noteq>
     Inr (spec_text_order decimal_float text_two_units)"
proof -
  have out: "extract_measurement_tables decimal_float text_two_units =
     Inr [new_result (ascii ''y'') 3 (get_unit (ascii ''kN'')),
          new_result (ascii ''x'') 5 (get_unit (ascii ''mm''))]"
    by (simp add: extract_measurement_tables_eq two_units_rows unit_candidates_def two_units_hits
        is_duplicate_def ascii_neq)
  have spec: "spec_text_order decimal_float text_two_units =
     [new_result (ascii ''x'') 5 (get_unit (ascii ''mm'')),
      new_result (ascii ''y'') 3 (get_unit (ascii ''kN''))]"
    by (simp add: spec_text_order_def two_units_rows two_units_hits is_duplicate_def ascii_neq)
  have "new_result (ascii ''y'') (3::rat) (get_unit (ascii ''kN'')) \<noteq>
      new_result (ascii ''x'') 5 (get_unit (ascii ''mm''))"
    by (simp add: new_result_def ascii_neq)
  with out spec two_units_hits show ?thesis by simp
qed

text \<open>
  C2 (as amended). The returned sequence lists all delimited-row results first, in the
  order of their matches in the text, followed by the unit-anchored results that were not
  deduplicated away, in the order in which the second pass finds them: pattern after
  pattern in the order of \<open>UNIT_PATTERNS\<close>, and by position in the text among the matches
  of one pattern.
\<close>

theorem extract_measurement_tables_order:
  "extract_measurement_tables pyfloat text =
     Inr (delimited_rows pyfloat text @
          survivors (delimited_rows pyfloat text) (unit_candidates pyfloat text)) \<and>
   subseq (survivors (delimited_rows pyfloat text) (unit_candidates pyfloat text))
     (unit_candidates pyfloat text) \<and>
   unit_candidates pyfloat text =
     concat (map (\<lambda>(pattern, unit_symbol). map snd (unit_hits pyfloat text pattern unit_symbol))
       UNIT_PATTERNS) \<and>
   sorted_wrt (<) (map mt_start (row_matches text)) \<and>
   (\<forall>(pattern, unit_symbol) \<in> set UNIT_PATTERNS.
      sorted_wrt (<) (map fst (unit_hits pyfloat text pattern unit_symbol)))"
proof (intro conjI)
  show "extract_measurement_tables pyfloat text =
     Inr (delimited_rows pyfloat text @
          survivors (delimited_rows pyfloat text) (unit_candidates pyfloat text))"
    by (simp add: extract_measurement_tables_eq keep_new_survivors)
  show "subseq (survivors (delimited_rows pyfloat text) (unit_candidates pyfloat text))
     (unit_candidates pyfloat text)"
    by (rule survivors_subseq)
  show "unit_candidates pyfloat text =
     concat (map (\<lambda>(pattern, unit_symbol). map snd (unit_hits pyfloat text pattern unit_symbol))
       UNIT_PATTERNS)"
    by (simp add: unit_candidates_def all_unit_hits_def map_concat comp_def case_prod_unfold)
  show "sorted_wrt (<) (map mt_start (row_matches text))"
    unfolding row_matches_def
    by (rule re_finditer_sorted) (rule measurement_pattern_static(3))
  show "\<forall>(pattern, unit_symbol) \<in> set UNIT_PATTERNS.
      sorted_wrt (<) (map fst (unit_hits pyfloat text pattern unit_symbol))"
  proof (intro ballI, clarify)
    fix p u assume "(p, u) \<in> set UNIT_PATTERNS"
    with unit_patterns_static have "consumes p" by auto
    then have "sorted_wrt (<) (map mt_start (re_finditer no_flags p text))"
      by (rule re_finditer_sorted)
    then show "sorted_wrt (<) (map fst (unit_hits pyfloat text p u))"
      unfolding unit_hits_def by (rule unit_hits_sorted)
  qed
qed

theorem extract_measurement_tables_order_witness:
  "extract_measurement_tables decimal_float text_two_units =
     Inr [new_result (ascii ''y'') 3 (get_unit (ascii ''kN'')),
          new_result (ascii ''x'') 5 (get_unit (ascii ''mm''))] \<and>
   (unit_pattern_1, ascii ''kN'') \<in> set UNIT_PATTERNS \<and>
   sorted_wrt (<) (map fst (unit_hits decimal_float text_two_units unit_pattern_1 (ascii ''kN'')))"
proof -
  note t = extract_measurement_tables_order [of decimal_float text_two_units]
  have m: "(unit_pattern_1, ascii ''kN'') \<in> set UNIT_PATTERNS"
    by (simp add: UNIT_PATTERNS_def)
  from t have "extract_measurement_tables decimal_float text_two_units =
     Inr (delimited_rows decimal_float text_two_units @
          survivors (delimited_rows decimal_float text_two_units)
            (unit_candidates decimal_float text_two_units))"
    by (rule conjunct1)
  then have out: "extract_measurement_tables decimal_float text_two_units =
     Inr [new_result (ascii ''y'') 3 (get_unit (ascii ''kN'')),
          new_result (ascii ''x'') 5 (get_unit (ascii ''mm''))]"
    by (simp add: two_units_rows unit_candidates_def two_units_hits is_duplicate_def ascii_neq)
  from t have "\<forall>(pattern, unit_symbol) \<in> set UNIT_PATTERNS.
      sorted_wrt (<) (map fst (unit_hits decimal_float text_two_units pattern unit_symbol))"
    by blast
  with m have "sorted_wrt (<)
      (map fst (unit_hits decimal_float text_two_units unit_pattern_1 (ascii ''kN'')))"
    by blast
  with out m show ?thesis by simp
qed

subsection \<open>Names\<close>

text \<open>
  C10. The function returns for every text, and every result of the returned sequence has
  a name of at least one and at most 100 characters, and no reference value, deviation or
  remarks.
\<close>

theorem extract_measurement_tables_names:
  "case extract_measurement_tables pyfloat text of
     Inl e \<Rightarrow> False
   | Inr out \<Rightarrow>
       (\<forall>r \<in> set out.
          MeasurementResult.name r \<noteq> [] \<and> length (MeasurementResult.name r) \<le> 100 \<and>
          reference_value r = None \<and> deviation r = None \<and> remarks r = None)"
proof -
  have "\<forall>r \<in> set (keep_new (delimited_rows pyfloat text) (unit_candidates pyfloat text)).
      well_named r"
    using set_keep_new [of "delimited_rows pyfloat text" "unit_candidates pyfloat text"]
      delimited_rows_well_named [of _ pyfloat "text"]
      unit_candidates_well_named [of _ pyfloat "text"]
    by blast
  then show ?thesis
    by (simp add: extract_measurement_tables_eq well_named_def)
qed

theorem extract_measurement_tables_names_witness:
  "extract_measurement_tables decimal_float text_row_and_unit =
     Inr [new_result (ascii ''F'') 5 (get_unit (ascii ''kN''))] \<and>
   MeasurementResult.name (new_result (ascii ''F'') (5::rat) (get_unit (ascii ''kN''))) \<noteq> [] \<and>
   length (MeasurementResult.name (new_result (ascii ''F'') (5::rat) (get_unit (ascii ''kN'')))) \<le> 100 \<and>
   reference_value (new_result (ascii ''F'') (5::rat) (get_unit (ascii ''kN''))) = None"
proof -
  have out: "extract_measurement_tables decimal_float text_row_and_unit =
     Inr [new_result (ascii ''F'') 5 (get_unit (ascii ''kN''))]"
    by (simp add: extract_measurement_tables_eq row_and_unit_rows unit_candidates_def
        row_and_unit_hits is_duplicate_def)
  from extract_measurement_tables_names [of decimal_float text_row_and_unit]
  show ?thesis
    unfolding out by simp
qed

section \<open>Properties of keyed scalar extraction\<close>

lemma patterns_static: "\<forall>(k, ps) \<in> set PATTERNS. \<forall>p \<in> set ps. always_captures 1 p"
  by code_simp

lemma dict_get_patterns: "p \<in> set (dict_get PATTERNS k []) \<Longrightarrow> always_captures 1 p"
proof -
  assume p: "p \<in> set (dict_get PATTERNS k [])"
  then have "\<exists>ps. map_of PATTERNS k = Some ps \<and> p \<in> set ps"
    by (cases "map_of PATTERNS k") (simp_all add: dict_get_def)
  then obtain ps where ps: "map_of PATTERNS k = Some ps" "p \<in> set ps"
    by blast
  from ps(1) have "(k, ps) \<in> set PATTERNS" by (rule map_of_SomeD)
  with patterns_static ps(2) show ?thesis by blast
qed

lemma extract_pattern_loop_none:
  "\<forall>p \<in> set ps. re_search search_flags p s = None \<Longrightarrow> extract_pattern_loop s ps = Inr None"
  by (induction ps) simp_all

lemma extract_pattern_loop_first:
  "\<forall>p \<in> set ps. always_captures 1 p \<Longrightarrow> i < length ps \<Longrightarrow>
   \<forall>j < i. re_search search_flags (ps ! j) s = None \<Longrightarrow>
   re_search search_flags (ps ! i) s = Some m \<Longrightarrow>
   \<exists>g. group_of m 1 = Some g \<and> extract_pattern_loop s ps = Inr (Some (strip g))"
proof (induction ps arbitrary: i)
  case Nil
  then show ?case by simp
next
  case (Cons p ps)
  show ?case
  proof (cases i)
    case 0
    with Cons.prems have m: "re_search search_flags p s = Some m" by simp
    from Cons.prems(1) have "always_captures 1 p" by simp
    from re_search_groups [OF this m] obtain g where "group_of m 1 = Some g" ..
    with m show ?thesis by simp
  next
    case (Suc k)
    with Cons.prems have "re_search search_flags p s = None" by auto
    moreover from Cons.prems Suc have "\<forall>j < k. re_search search_flags (ps ! j) s = None"
      by auto
    moreover from Cons.prems Suc have "k < length ps" "re_search search_flags (ps ! k) s = Some m"
      "\<forall>p \<in> set ps. always_captures 1 p"
      by auto
    ultimately show ?thesis using Cons.IH [of k] by simp
  qed
qed

lemma extract_pattern_loop_Inr:
  "\<forall>p \<in> set ps. always_captures 1 p \<Longrightarrow> \<exists>r. extract_pattern_loop s ps = Inr r"
proof (induction ps)
  case Nil
  then show ?case by simp
next
  case (Cons p ps)
  show ?case
  proof (cases "re_search search_flags p s")
    case None
    with Cons show ?thesis by simp
  next
    case (Some m)
    from Cons.prems have "always_captures 1 p" by simp
    from re_search_groups [OF this Some] obtain g where "group_of m 1 = Some g" ..
    with Some show ?thesis by simp
  qed
qed

lemma extract_pattern_Inr: "\<exists>r. extract_pattern s k = Inr r"
  unfolding extract_pattern_def
  by (rule extract_pattern_loop_Inr) (auto dest: dict_get_patterns)

lemma labeled_and_bare_search:
  "re_search search_flags certificate_number_1 text_labeled_and_bare =
     Some \<lparr>mt_start = 8, mt_end = 37, mt_spans = [(1, 25, 37)], mt_ngroups = 1,
           mt_string = text_labeled_and_bare\<rparr>"
  by code_simp

lemma no_number_search:
  "\<forall>p \<in> set (dict_get PATTERNS (ascii ''certificate_number'') []).
     re_search search_flags p text_no_number = None"
  by code_simp

text \<open>
  C4. \<open>extract_pattern\<close> never raises. When no pattern of the key is found in the text
  (in particular for a key without patterns) it returns \<open>None\<close>; otherwise it returns
  the stripped group 1 of the first pattern, in the order of the list, that is found
  anywhere in the text, searching without regard to case and with \<^verbatim>\<open>MULTILINE\<close>. The
  patterns of the certificate number are all labeled, so that whenever the first labeled
  form is found its capture is returned, whatever else the text contains.
\<close>

theorem extract_pattern_first_match:
  "(\<exists>r. extract_pattern s k = Inr r) \<and>
   ((\<forall>p \<in> set (dict_get PATTERNS k []). re_search search_flags p s = None) \<longrightarrow>
      extract_pattern s k = Inr None) \<and>
   (\<forall>i < length (dict_get PATTERNS k []).
      (\<forall>j < i. re_search search_flags (dict_get PATTERNS k [] ! j) s = None) \<longrightarrow>
      (\<forall>m. re_search search_flags (dict_get PATTERNS k [] ! i) s = Some m \<longrightarrow>
         (\<exists>g. group_of m 1 = Some g \<and> extract_pattern s k = Inr (Some (strip g))))) \<and>
   ignorecase search_flags \<and> multiline search_flags \<and>
   dict_get PATTERNS (ascii ''certificate_number'') [] =
     [certificate_number_1, certificate_number_2, certificate_number_3] \<and>
   (\<forall>m. re_search search_flags certificate_number_1 s = Some m \<longrightarrow>
      (\<exists>g. group_of m 1 = Some g \<and>
           extract_pattern s (ascii ''certificate_number'') = Inr (Some (strip g))))"
proof -
  have caps: "\<forall>p \<in> set (dict_get PATTERNS k []). always_captures 1 p" for k
    by (auto dest: dict_get_patterns)
  have a: "\<exists>r. extract_pattern s k = Inr r" by (rule extract_pattern_Inr)
  have b: "(\<forall>p \<in> set (dict_get PATTERNS k []). re_search search_flags p s = None) \<longrightarrow>
      extract_pattern s k = Inr None"
    by (simp add: extract_pattern_def extract_pattern_loop_none)
  have c: "\<forall>i < length (dict_get PATTERNS k []).
      (\<forall>j < i. re_search search_flags (dict_get PATTERNS k [] ! j) s = None) \<longrightarrow>
      (\<forall>m. re_search search_flags (dict_get PATTERNS k [] ! i) s = Some m \<longrightarrow>
         (\<exists>g. group_of m 1 = Some g \<and> extract_pattern s k = Inr (Some (strip g))))"
    using extract_pattern_loop_first [OF caps [of k]]
    unfolding extract_pattern_def by blast
  have d: "ignorecase search_flags \<and> multiline search_flags"
    by (simp add: search_flags_def)
  have e: "dict_get PATTERNS (ascii ''certificate_number'') [] =
     [certificate_number_1, certificate_number_2, certificate_number_3]"
    by (simp add: dict_get_def PATTERNS_def)
  have f: "\<forall>m. re_search search_flags certificate_number_1 s = Some m \<longrightarrow>
      (\<exists>g. group_of m 1 = Some g \<and>
           extract_pattern s (ascii ''certificate_number'') = Inr (Some (strip g)))"
    using extract_pattern_loop_first [OF caps [of "ascii ''certificate_number''"], of 0 s]
    unfolding extract_pattern_def e by simp
  from a b c d e f show ?thesis by blast
qed

theorem extract_pattern_first_match_witness:
  "extract_pattern text_labeled_and_bare (ascii ''certificate_number'') =
     Inr (Some (ascii ''CAL-2024-001'')) \<and>
   extract_pattern text_no_number (ascii ''certificate_number'') = Inr None"
proof -
  note t1 = extract_pattern_first_match [of text_labeled_and_bare "ascii ''certificate_number''"]
  note t2 = extract_pattern_first_match [of text_no_number "ascii ''certificate_number''"]
  have g: "group_of \<lparr>mt_start = 8, mt_end = 37, mt_spans = [(1, 25, 37)], mt_ngroups = 1,
           mt_string = text_labeled_and_bare\<rparr> 1 = Some (ascii ''CAL-2024-001'')"
    by (simp add: group_of_def slice_def text_labeled_and_bare_def ascii_def)
  have s: "strip (ascii ''CAL-2024-001'') = ascii ''CAL-2024-001''"
    by (simp add: strip_def ascii_def isspace_def space_chars_def)
  from t1 labeled_and_bare_search
  have "\<exists>g. group_of \<lparr>mt_start = 8, mt_end = 37, mt_spans = [(1, 25, 37)], mt_ngroups = 1,
           mt_string = text_labeled_and_bare\<rparr> 1 = Some g \<and>
      extract_pattern text_labeled_and_bare (ascii ''certificate_number'') = Inr (Some (strip g))"
    by blast
  with g s have a: "extract_pattern text_labeled_and_bare (ascii ''certificate_number'') =
     Inr (Some (ascii ''CAL-2024-001''))"
    by auto
  from t2 no_number_search
  have b: "extract_pattern text_no_number (ascii ''certificate_number'') = Inr None"
    by blast
  from a b show ?thesis by simp
qed

section \<open>Properties of the validator\<close>

text \<open>
  C6. \<open>validate_certificate\<close> is a total function returning the triggered messages in
  the fixed order: the number starting with UNKNOWN, the calibration date absent, the
  serial number absent (an empty serial number counts as absent), no result or else
  exactly one result, the environmental conditions absent. The output is empty exactly
  when no check is triggered.
\<close>

theorem validate_certificate_messages:
  "validate_certificate c =
     (if startswith (certificate_number c) (ascii ''UNKNOWN'')
      then [ascii ''Certificate number could not be extracted''] else []) @
     (if calibration_date c = None then [ascii ''Calibration date is missing''] else []) @
     (if serial_number (equipment c) = None \<or> serial_number (equipment c) = Some []
      then [ascii ''Equipment serial number is missing''] else []) @
     (if measurement_results c = [] then [ascii ''No measurement results were extracted'']
      else if length (measurement_results c) = 1
      then [ascii ''Very few measurement results extracted - manual review recommended'']
      else []) @
     (if environmental_conditions c = None
      then [ascii ''Environmental conditions are missing''] else []) \<and>
   (validate_certificate c = [] \<longleftrightarrow>
      \<not> startswith (certificate_number c) (ascii ''UNKNOWN'') \<and>
      calibration_date c \<noteq> None \<and>
      truthy_str (serial_number (equipment c)) \<and>
      2 \<le> length (measurement_results c) \<and>
      environmental_conditions c \<noteq> None)"
proof -
  have t: "\<not> truthy_str s \<longleftrightarrow> s = None \<or> s = Some []" for s
    by (cases s) auto
  have l: "length xs < 2 \<longleftrightarrow> xs = [] \<or> length xs = 1" for xs :: "'c list"
    by (cases xs) auto
  show ?thesis
    unfolding validate_certificate_def Let_def t
    by (cases "measurement_results c"; cases "tl (measurement_results c)") (auto simp: l)
qed

theorem validate_certificate_messages_witness:
  "validate_certificate
     (bare_certificate (ascii ''UNKNOWN-unit7'') None [] :: (rat, unit) CalibrationCertificate) =
     [ascii ''Certificate number could not be extracted'',
      ascii ''Calibration date is missing'',
      ascii ''Equipment serial number is missing'',
      ascii ''No measurement results were extracted'',
      ascii ''Environmental conditions are missing''] \<and>
   validate_certificate
     (bare_certificate (ascii ''CAL-1'') (Some (ascii ''SN-1''))
        [new_result (ascii ''Force'') 5 (get_unit (ascii ''kN''))]
      :: (rat, unit) CalibrationCertificate) =
     [ascii ''Calibration date is missing'',
      ascii ''Very few measurement results extracted - manual review recommended'',
      ascii ''Environmental conditions are missing'']"
proof -
  have a: "startswith (ascii ''UNKNOWN-unit7'') (ascii ''UNKNOWN'')"
    by (simp add: startswith_def ascii_def)
  have b: "\<not> startswith (ascii ''CAL-1'') (ascii ''UNKNOWN'')"
    by (simp add: startswith_def ascii_def)
  have c: "ascii ''SN-1'' \<noteq> []"
    by (simp add: ascii_def)
  show ?thesis
    using a b c
      validate_certificate_messages
        [of "bare_certificate (ascii ''UNKNOWN-unit7'') None [] :: (rat, unit) CalibrationCertificate"]
      validate_certificate_messages
        [of "bare_certificate (ascii ''CAL-1'') (Some (ascii ''SN-1''))
               [new_result (ascii ''Force'') 5 (get_unit (ascii ''kN''))]
             :: (rat, unit) CalibrationCertificate"]
    by (simp add: bare_certificate_def)
qed

section \<open>Properties of the date parser\<close>











section \<open>Properties of the environmental conditions\<close>

lemma pressure_search_groups:
  "\<forall>p \<in> set ps. always_captures 1 p \<Longrightarrow> pressure_search s ps = Some m \<Longrightarrow>
   \<exists>g. group_of m 1 = Some g"
proof (induction ps)
  case Nil
  then show ?case by simp
next
  case (Cons p ps)
  show ?case
  proof (cases "re_search \<lparr>ignorecase = True, multiline = False\<rparr> p s")
    case None
    with Cons show ?thesis by simp
  next
    case (Some m')
    with Cons.prems have "m' = m" by simp
    with Some Cons.prems(1) re_search_groups [of 1 p _ s m] show ?thesis by simp
  qed
qed

lemma pressure_value_Inr:
  "pressure_search s (dict_get PATTERNS k []) = Some m \<Longrightarrow> \<exists>r. pressure_value pyfloat m = Inr r"
proof -
  assume "pressure_search s (dict_get PATTERNS k []) = Some m"
  with pressure_search_groups [of "dict_get PATTERNS k []" s m] dict_get_patterns [of _ k]
  obtain g where "group_of m 1 = Some g" by blast
  then show ?thesis
    by (auto simp: pressure_value_def Let_def split: option.splits)
qed

lemma extract_environmental_conditions_eq:
  "extract_environmental_conditions pyfloat s =
     Inr (if extracted_temperature pyfloat s = None \<and> extracted_humidity pyfloat s = None \<and>
             extracted_pressure pyfloat s = None
          then None
          else Some \<lparr>temperature = extracted_temperature pyfloat s,
                     humidity = extracted_humidity pyfloat s,
                     pressure = extracted_pressure pyfloat s\<rparr>)"
proof -
  obtain ts where ts: "extract_pattern s (ascii ''temperature'') = Inr ts"
    using extract_pattern_Inr by blast
  obtain hs where hs: "extract_pattern s (ascii ''humidity'') = Inr hs"
    using extract_pattern_Inr by blast
  have "\<exists>p. (case pressure_search s (dict_get PATTERNS (ascii ''pressure'') []) of
             None \<Rightarrow> Inr None | Some m \<Rightarrow> pressure_value pyfloat m) = Inr p"
    using pressure_value_Inr [of s "ascii ''pressure''" _ pyfloat]
    by (cases "pressure_search s (dict_get PATTERNS (ascii ''pressure'') [])") auto
  then obtain p where p: "(case pressure_search s (dict_get PATTERNS (ascii ''pressure'') []) of
             None \<Rightarrow> Inr None | Some m \<Rightarrow> pressure_value pyfloat m) = Inr p" ..
  then have ep: "extracted_pressure pyfloat s = p"
    by (auto simp: extracted_pressure_def split: option.splits sum.splits)
  have et: "extracted_temperature pyfloat s = keyed_value pyfloat ts ([176] @ ascii ''C'')"
    by (simp add: extracted_temperature_def ts)
  have eh: "extracted_humidity pyfloat s = keyed_value pyfloat hs (ascii ''%rh'')"
    by (simp add: extracted_humidity_def hs)
  show ?thesis
    unfolding extract_environmental_conditions_def ts hs et eh ep
    by (simp add: Let_def p split: option.splits)
qed

lemma conditions_examples:
  "extracted_temperature decimal_float text_conditions =
     Some (plain_value (47 / 2) (get_unit ([176] @ ascii ''C'')))"
  "extracted_humidity decimal_float text_conditions =
     Some (plain_value (226 / 5) (get_unit (ascii ''%rh'')))"
  "extracted_pressure decimal_float text_conditions = None"
  "extracted_temperature decimal_float text_no_number = None"
  "extracted_humidity decimal_float text_no_number = None"
  "extracted_pressure decimal_float text_no_number = None"
  by code_simp+

text \<open>
  C8. \<open>extract_environmental_conditions\<close> never raises. It returns \<open>None\<close> exactly when
  none of temperature, humidity and pressure is extracted (found by its pattern and
  converted to a number); otherwise it returns the conditions in which exactly the
  extracted quantities are present, with their extracted values.
\<close>

theorem extract_environmental_conditions_present:
  "case extract_environmental_conditions pyfloat s of
     Inl e \<Rightarrow> False
   | Inr res \<Rightarrow>
       (res = None \<longleftrightarrow>
          extracted_temperature pyfloat s = None \<and> extracted_humidity pyfloat s = None \<and>
          extracted_pressure pyfloat s = None) \<and>
       (\<forall>c. res = Some c \<longrightarrow>
          temperature c = extracted_temperature pyfloat s \<and>
          humidity c = extracted_humidity pyfloat s \<and>
          pressure c = extracted_pressure pyfloat s)"
  by (simp add: extract_environmental_conditions_eq)

theorem extract_environmental_conditions_present_witness:
  "extract_environmental_conditions decimal_float text_conditions =
     Inr (Some \<lparr>temperature = Some (plain_value (47 / 2) (get_unit ([176] @ ascii ''C''))),
                humidity = Some (plain_value (226 / 5) (get_unit (ascii ''%rh''))),
                pressure = None\<rparr>) \<and>
   extract_environmental_conditions decimal_float text_no_number = Inr None"
proof -
  note t1 = extract_environmental_conditions_present [of decimal_float text_conditions]
  note t2 = extract_environmental_conditions_present [of decimal_float text_no_number]
  from t1 obtain r1 where r1: "extract_environmental_conditions decimal_float text_conditions = Inr r1"
    by (cases "extract_environmental_conditions decimal_float text_conditions") auto
  from t2 obtain r2 where r2: "extract_environmental_conditions decimal_float text_no_number = Inr r2"
    by (cases "extract_environmental_conditions decimal_float text_no_number") auto
  from t1 r1 conditions_examples(1) obtain c where c: "r1 = Some c"
    by (cases r1) auto
  from t1 r1 c conditions_examples(1,2,3)
  have "temperature c = Some (plain_value (47 / 2) (get_unit ([176] @ ascii ''C'')))"
    "humidity c = Some (plain_value (226 / 5) (get_unit (ascii ''%rh'')))"
    "pressure c = None"
    by auto
  then have "c = \<lparr>temperature = Some (plain_value (47 / 2) (get_unit ([176] @ ascii ''C''))),
                humidity = Some (plain_value (226 / 5) (get_unit (ascii ''%rh''))),
                pressure = None\<rparr>"
    by (cases c) simp
  moreover from t2 r2 conditions_examples(4,5,6) have "r2 = None"
    by auto
  ultimately show ?thesis using r1 r2 c by simp
qed

section \<open>Properties of the serializer's unit text\<close>

lemma unit_to_si_distinct: "distinct (map fst UNIT_TO_SI)"
  by (simp add: UNIT_TO_SI_def ascii_def)

lemma uncertainty_elements_accepted:
  "(\<exists>unc. uncertainty_elements lib fstr v = Inr unc) \<longleftrightarrow>
     (case expanded_uncertainty v of
        None \<Rightarrow> True
      | Some u \<Rightarrow>
          valid_tag lib (si_tag (ascii ''expandedUnc'')) \<and>
          valid_tag lib (si_tag (ascii ''uncertainty'')) \<and> valid_text lib (fstr u) \<and>
          (case coverage_factor v of
             None \<Rightarrow> True
           | Some k \<Rightarrow>
               valid_tag lib (si_tag (ascii ''coverageFactor'')) \<and> valid_text lib (fstr k)) \<and>
          (case coverage_probability v of
             None \<Rightarrow> True
           | Some p \<Rightarrow>
               valid_tag lib (si_tag (ascii ''coverageProbability'')) \<and>
               valid_text lib (fstr p)))"
  by (auto simp: uncertainty_elements_def checked_def split: option.splits)

lemma create_value_element_cases:
  "create_value_element lib fstr parent v tg =
     (if value_element_accepted lib fstr v tg then
        (case uncertainty_elements lib fstr v of
           Inl e \<Rightarrow> Inl e
         | Inr unc \<Rightarrow>
             Inr (Element (si_tag tg) [] None
                    ([Element (si_tag (ascii ''value'')) [] (Some (fstr (value v))) [],
                      Element (si_tag (ascii ''unit'')) []
                        (Some (dict_get UNIT_TO_SI (symbol (unit v)) (symbol (unit v)))) []] @ unc),
                  append_child parent
                    (Element (si_tag tg) [] None
                       ([Element (si_tag (ascii ''value'')) [] (Some (fstr (value v))) [],
                         Element (si_tag (ascii ''unit'')) []
                           (Some (dict_get UNIT_TO_SI (symbol (unit v)) (symbol (unit v)))) []] @
                        unc))))
      else Inl ValueError)"
proof (cases "uncertainty_elements lib fstr v")
  case (Inl e)
  then have "\<not> (\<exists>unc. uncertainty_elements lib fstr v = Inr unc)" by simp
  then have n: "\<not> value_element_accepted lib fstr v tg"
    unfolding uncertainty_elements_accepted value_element_accepted_def by blast
  have "e = ValueError" by (cases e) simp
  with Inl n show ?thesis
    by (simp add: create_value_element_def checked_def Let_def)
next
  case (Inr unc)
  then have "\<exists>unc. uncertainty_elements lib fstr v = Inr unc" by blast
  then have u: "case expanded_uncertainty v of
        None \<Rightarrow> True
      | Some u \<Rightarrow>
          valid_tag lib (si_tag (ascii ''expandedUnc'')) \<and>
          valid_tag lib (si_tag (ascii ''uncertainty'')) \<and> valid_text lib (fstr u) \<and>
          (case coverage_factor v of
             None \<Rightarrow> True
           | Some k \<Rightarrow>
               valid_tag lib (si_tag (ascii ''coverageFactor'')) \<and> valid_text lib (fstr k)) \<and>
          (case coverage_probability v of
             None \<Rightarrow> True
           | Some p \<Rightarrow>
               valid_tag lib (si_tag (ascii ''coverageProbability'')) \<and>
               valid_text lib (fstr p))"
    unfolding uncertainty_elements_accepted .
  show ?thesis
    using Inr u
    by (simp add: create_value_element_def checked_def Let_def value_element_accepted_def)
qed

text \<open>
  C9. A measured value is serialized exactly when the XML library accepts the tags and
  texts it is given; then the text of the unit element is the entry of the serializer's
  SI-token table for the unit's symbol (for kN the two-part token of kilo and newton), and
  the symbol itself, unchanged, when the table has no entry for it. Otherwise the
  \<^verbatim>\<open>ValueError\<close> of the library is raised and nothing is serialized.
\<close>

theorem create_value_element_unit_text:
  "(case create_value_element lib fstr parent v tg of
      Inl err \<Rightarrow> \<not> value_element_accepted lib fstr v tg
    | Inr (e, p) \<Rightarrow>
        value_element_accepted lib fstr v tg \<and>
        child_text e (si_tag (ascii ''unit'')) =
          Some (case map_of UNIT_TO_SI (symbol (unit v)) of
                  Some t \<Rightarrow> t | None \<Rightarrow> symbol (unit v)) \<and>
        (symbol (unit v) \<notin> fst ` set UNIT_TO_SI \<longrightarrow>
           child_text e (si_tag (ascii ''unit'')) = Some (symbol (unit v)))) \<and>
   (\<forall>(k, t) \<in> set UNIT_TO_SI. map_of UNIT_TO_SI k = Some t) \<and>
   map_of UNIT_TO_SI (ascii ''kN'') = Some ([92] @ ascii ''kilo'' @ [92] @ ascii ''newton'')"
proof -
  have ne: "si_tag (ascii ''value'') \<noteq> si_tag (ascii ''unit'')"
    by (simp add: si_tag_def ascii_def)
  have none: "symbol (unit v) \<notin> fst ` set UNIT_TO_SI \<Longrightarrow> map_of UNIT_TO_SI (symbol (unit v)) = None"
    by (simp add: map_of_eq_None_iff)
  have a: "case create_value_element lib fstr parent v tg of
      Inl err \<Rightarrow> \<not> value_element_accepted lib fstr v tg
    | Inr (e, p) \<Rightarrow>
        value_element_accepted lib fstr v tg \<and>
        child_text e (si_tag (ascii ''unit'')) =
          Some (case map_of UNIT_TO_SI (symbol (unit v)) of
                  Some t \<Rightarrow> t | None \<Rightarrow> symbol (unit v)) \<and>
        (symbol (unit v) \<notin> fst ` set UNIT_TO_SI \<longrightarrow>
           child_text e (si_tag (ascii ''unit'')) = Some (symbol (unit v)))"
  proof (cases "value_element_accepted lib fstr v tg")
    case False
    then show ?thesis by (simp add: create_value_element_cases)
  next
    case True
    then have "\<exists>unc. uncertainty_elements lib fstr v = Inr unc"
      unfolding uncertainty_elements_accepted value_element_accepted_def by blast
    then obtain unc where "uncertainty_elements lib fstr v = Inr unc" ..
    with True ne none show ?thesis
      by (auto simp: create_value_element_cases child_text_def dict_get_def)
  qed
  have b: "\<forall>(k, t) \<in> set UNIT_TO_SI. map_of UNIT_TO_SI k = Some t"
    using unit_to_si_distinct by (auto simp: map_of_is_SomeI)
  have c: "map_of UNIT_TO_SI (ascii ''kN'') = Some ([92] @ ascii ''kilo'' @ [92] @ ascii ''newton'')"
    by (simp add: UNIT_TO_SI_def ascii_def)
  from a b c show ?thesis by blast
qed

lemma furlongs_accepted:
  "value_element_accepted example_checks (\<lambda>x::rat. ascii ''5.0'') furlongs (ascii ''real'')"
  "symbol (unit furlongs) = ascii ''furlong''"
  "ascii ''furlong'' \<notin> fst ` set UNIT_TO_SI"
  "\<not> value_element_accepted example_checks (\<lambda>x::rat. ascii ''5.0'') broken_unit (ascii ''real'')"
  by code_simp+

theorem create_value_element_unit_text_witness:
  "(case create_value_element example_checks (\<lambda>x::rat. ascii ''5.0'')
           (Element (ascii ''p'') [] None []) furlongs (ascii ''real'') of
      Inl err \<Rightarrow> False
    | Inr (e, p) \<Rightarrow> child_text e (si_tag (ascii ''unit'')) = Some (ascii ''furlong'')) \<and>
   ascii ''furlong'' \<notin> fst ` set UNIT_TO_SI \<and>
   create_value_element example_checks (\<lambda>x::rat. ascii ''5.0'')
     (Element (ascii ''p'') [] None []) broken_unit (ascii ''real'') = Inl ValueError"
proof -
  note t1 = create_value_element_unit_text
    [where lib = example_checks and fstr = "\<lambda>x::rat. ascii ''5.0''"
       and parent = "Element (ascii ''p'') [] None []" and v = furlongs and tg = "ascii ''real''",
     THEN conjunct1]
  note t2 = create_value_element_unit_text
    [where lib = example_checks and fstr = "\<lambda>x::rat. ascii ''5.0''"
       and parent = "Element (ascii ''p'') [] None []" and v = broken_unit and tg = "ascii ''real''",
     THEN conjunct1]
  have a: "case create_value_element example_checks (\<lambda>x::rat. ascii ''5.0'')
           (Element (ascii ''p'') [] None []) furlongs (ascii ''real'') of
      Inl err \<Rightarrow> False
    | Inr (e, p) \<Rightarrow> child_text e (si_tag (ascii ''unit'')) = Some (ascii ''furlong'')"
    using t1 furlongs_accepted(1,2,3)
    by (cases "create_value_element example_checks (\<lambda>x::rat. ascii ''5.0'')
           (Element (ascii ''p'') [] None []) furlongs (ascii ''real'')") auto
  have b: "create_value_element example_checks (\<lambda>x::rat. ascii ''5.0'')
     (Element (ascii ''p'') [] None []) broken_unit (ascii ''real'') = Inl ValueError"
  proof (cases "create_value_element example_checks (\<lambda>x::rat. ascii ''5.0'')
     (Element (ascii ''p'') [] None []) broken_unit (ascii ''real'')")
    case (Inl err)
    then show ?thesis by (cases err) simp
  next
    case (Inr ep)
    with t2 furlongs_accepted(4) show ?thesis by (cases ep) simp
  qed
  from a b furlongs_accepted(3) show ?thesis by simp
qed

section \<open>Properties of the assembled certificate\<close>

lemma startswith_unknown: "startswith (ascii ''UNKNOWN-'' @ x) (ascii ''UNKNOWN'')"
  by (simp add: startswith_def ascii_def)

subsection \<open>The stem of a path\<close>

lemma split_on_append: "split_on c (xs @ c # ys) = split_on c xs @ split_on c ys"
proof (induction xs)
  case Nil
  then show ?case by simp
next
  case (Cons x xs)
  obtain p ps where sp: "split_on c xs = p # ps"
    using split_on_nonempty [of c xs] by (cases "split_on c xs") auto
  with Cons show ?case by simp
qed

lemma split_on_absent: "c \<notin> set s \<Longrightarrow> split_on c s = [s]"
  by (induction s) auto

lemma rfind_absent: "c \<notin> set s \<Longrightarrow> rfind s c = -1"
  by (induction s) (auto simp: Let_def)

lemma rfind_last: "c \<notin> set ys \<Longrightarrow> rfind (xs @ c # ys) c = int (length xs)"
  by (induction xs) (auto simp: Let_def rfind_absent)

lemma path_components_append:
  "path_components (xs @ 47 # ys) = path_components xs @ path_components ys"
  by (simp add: path_components_def split_on_append)

lemma path_components_name:
  "47 \<notin> set nm \<Longrightarrow> nm \<noteq> [] \<Longrightarrow> nm \<noteq> ascii ''.'' \<Longrightarrow> path_components nm = [nm]"
  by (simp add: path_components_def split_on_absent)

lemma path_name_file:
  assumes "dir = [] \<or> last dir = 47" "47 \<notin> set nm" "nm \<noteq> []" "nm \<noteq> ascii ''.''"
  shows "path_name (dir @ nm) = nm"
proof (cases "dir = []")
  case True
  with assms show ?thesis by (simp add: path_name_def path_components_name)
next
  case False
  with assms(1) have "dir = butlast dir @ [47]"
    by (metis append_butlast_last_id)
  then obtain d where d: "dir = d @ [47]" ..
  have "path_components (dir @ nm) = path_components (d @ 47 # nm)"
    by (simp add: d)
  also have "\<dots> = path_components d @ path_components nm"
    by (rule path_components_append)
  also have "\<dots> = path_components d @ [nm]"
    using assms by (simp add: path_components_name)
  finally show ?thesis by (simp add: path_name_def)
qed

lemma path_components_trailing: "path_components (p @ [47]) = path_components p"
  using path_components_append [of p "[]"] by (simp add: path_components_def)

lemma path_name_trailing: "path_name (p @ [47]) = path_name p"
  by (simp add: path_name_def path_components_trailing)

lemma path_stem_trailing: "path_stem (p @ [47]) = path_stem p"
  by (simp add: path_stem_def path_name_trailing)

lemma path_stem_suffix:
  assumes "dir = [] \<or> last dir = 47" "base \<noteq> []" "ext \<noteq> []"
    "47 \<notin> set base" "47 \<notin> set ext" "46 \<notin> set ext"
  shows "path_stem (dir @ base @ [46] @ ext) = base"
proof -
  have ne: "base @ [46] @ ext \<noteq> ascii ''.''"
    using assms(2,3) by (cases base; cases ext) (auto simp: ascii_def)
  have "path_name (dir @ base @ [46] @ ext) = base @ [46] @ ext"
    using assms ne by (intro path_name_file) auto
  moreover have "rfind (base @ [46] @ ext) 46 = int (length base)"
    using assms(6) rfind_last [of 46 ext base] by simp
  ultimately show ?thesis
    using assms(2,3) by (simp add: path_stem_def Let_def)
qed

lemma path_stem_plain:
  assumes "dir = [] \<or> last dir = 47" "nm \<noteq> []" "47 \<notin> set nm" "46 \<notin> set nm"
  shows "path_stem (dir @ nm) = nm"
proof -
  have ne: "nm \<noteq> ascii ''.''"
    using assms(4) by (auto simp: ascii_def)
  have "path_name (dir @ nm) = nm"
    using assms ne by (intro path_name_file) auto
  then show ?thesis
    using assms(4) by (simp add: path_stem_def Let_def rfind_absent)
qed

lemma stem_examples:
  "path_stem (ascii ''unit7.pdf'') = ascii ''unit7''"
  "path_stem (ascii ''scans/unit7.pdf/'') = ascii ''unit7''"
  "path_stem (ascii ''x.pdf/.'') = ascii ''x''"
  "path_stem (ascii ''/tmp/lab.d/report.2024.tar.gz'') = ascii ''report.2024.tar''"
  "path_stem (ascii ''a/.hidden'') = ascii ''.hidden''"
  "path_stem (ascii ''/'') = []"
  by code_simp+

lemma source_file_examples:
  "path_str (ascii ''scans/unit7.pdf/'') = ascii ''scans/unit7.pdf''"
  "path_str (ascii ''x.pdf/.'') = ascii ''x.pdf''"
  "path_str (ascii ''//a//b'') = ascii ''//a/b''"
  "path_str (ascii ''///a/./b'') = ascii ''/a/b''"
  "path_str [] = ascii ''.''"
  by code_simp+

subsection \<open>The certificate number that was not found\<close>

text \<open>
  C7. When no pattern of the certificate number is found in the text of the document,
  \<open>parse_certificate\<close> returns a certificate whose number is UNKNOWN- followed by the stem
  of the file name, as \<^verbatim>\<open>pathlib\<close> computes it from the path it is given: for a file name
  with an extension in any directory, the name up to its last dot; for a file name without
  a dot, the name; a separator at the end of the path changes nothing. The validator
  reports for this certificate that the certificate number could not be extracted.
\<close>

theorem parse_certificate_unknown_number:
  assumes "\<forall>p \<in> set (dict_get PATTERNS (ascii ''certificate_number'') []).
             re_search search_flags p raw = None"
  shows "case parse_certificate pyfloat now file_path raw lab_name of
           Inl e \<Rightarrow> False
         | Inr c \<Rightarrow>
             certificate_number c = ascii ''UNKNOWN-'' @ path_stem file_path \<and>
             (\<forall>dir base ext.
                file_path = dir @ base @ [46] @ ext \<and> (dir = [] \<or> last dir = 47) \<and>
                base \<noteq> [] \<and> ext \<noteq> [] \<and> 47 \<notin> set base \<and> 47 \<notin> set ext \<and> 46 \<notin> set ext \<longrightarrow>
                certificate_number c = ascii ''UNKNOWN-'' @ base) \<and>
             (\<forall>dir nm.
                file_path = dir @ nm \<and> (dir = [] \<or> last dir = 47) \<and>
                nm \<noteq> [] \<and> 47 \<notin> set nm \<and> 46 \<notin> set nm \<longrightarrow>
                certificate_number c = ascii ''UNKNOWN-'' @ nm) \<and>
             (\<forall>p. file_path = p @ [47] \<longrightarrow>
                certificate_number c = ascii ''UNKNOWN-'' @ path_stem p) \<and>
             source_file c = Some (path_str file_path) \<and>
             ascii ''Certificate number could not be extracted'' \<in> set (validate_certificate c)"
proof -
  from assms have n: "extract_pattern raw (ascii ''certificate_number'') = Inr None"
    by (simp add: extract_pattern_def extract_pattern_loop_none)
  obtain a where a: "extract_pattern raw (ascii ''calibration_date'') = Inr a"
    using extract_pattern_Inr by blast
  obtain b where b: "extract_pattern raw (ascii ''certificate_date'') = Inr b"
    using extract_pattern_Inr by blast
  obtain c where c: "extract_pattern raw (ascii ''serial_number'') = Inr c"
    using extract_pattern_Inr by blast
  obtain d where d: "extract_pattern raw (ascii ''manufacturer'') = Inr d"
    using extract_pattern_Inr by blast
  obtain e where e: "extract_pattern raw (ascii ''model'') = Inr e"
    using extract_pattern_Inr by blast
  have "\<exists>cert. parse_certificate pyfloat now file_path raw lab_name = Inr cert \<and>
          certificate_number cert = ascii ''UNKNOWN-'' @ path_stem file_path \<and>
          source_file cert = Some (path_str file_path) \<and>
          ascii ''Certificate number could not be extracted'' \<in> set (validate_certificate cert)"
    unfolding parse_certificate_def n a b c d e
    by (simp add: Let_def extract_environmental_conditions_eq extract_measurement_tables_eq
        validate_certificate_def startswith_unknown)
  then obtain cert where cert:
    "parse_certificate pyfloat now file_path raw lab_name = Inr cert"
    "certificate_number cert = ascii ''UNKNOWN-'' @ path_stem file_path"
    "source_file cert = Some (path_str file_path)"
    "ascii ''Certificate number could not be extracted'' \<in> set (validate_certificate cert)"
    by blast
  have s1: "\<forall>dir base ext.
      file_path = dir @ base @ [46] @ ext \<and> (dir = [] \<or> last dir = 47) \<and>
      base \<noteq> [] \<and> ext \<noteq> [] \<and> 47 \<notin> set base \<and> 47 \<notin> set ext \<and> 46 \<notin> set ext \<longrightarrow>
      certificate_number cert = ascii ''UNKNOWN-'' @ base"
    using cert(2) path_stem_suffix by simp
  have s2: "\<forall>dir nm.
      file_path = dir @ nm \<and> (dir = [] \<or> last dir = 47) \<and>
      nm \<noteq> [] \<and> 47 \<notin> set nm \<and> 46 \<notin> set nm \<longrightarrow>
      certificate_number cert = ascii ''UNKNOWN-'' @ nm"
    using cert(2) path_stem_plain by simp
  have s3: "\<forall>p. file_path = p @ [47] \<longrightarrow>
      certificate_number cert = ascii ''UNKNOWN-'' @ path_stem p"
    using cert(2) path_stem_trailing by simp
  from cert s1 s2 s3 show ?thesis by simp
qed

theorem parse_certificate_unknown_number_witness:
  "(case parse_certificate decimal_float () (ascii ''scans/unit7.pdf'') text_no_number
          (ascii ''Lab'') of
      Inl e \<Rightarrow> False
    | Inr c \<Rightarrow>
        certificate_number c = ascii ''UNKNOWN-unit7'' \<and>
        source_file c = Some (ascii ''scans/unit7.pdf'') \<and>
        ascii ''Certificate number could not be extracted'' \<in> set (validate_certificate c)) \<and>
   (case parse_certificate decimal_float () (ascii ''scans/unit7.pdf/'') text_no_number
          (ascii ''Lab'') of
      Inl e \<Rightarrow> False
    | Inr c \<Rightarrow>
        certificate_number c = ascii ''UNKNOWN-unit7'' \<and>
        source_file c = Some (ascii ''scans/unit7.pdf'')) \<and>
   (case parse_certificate decimal_float () (ascii ''x.pdf/.'') text_no_number (ascii ''Lab'') of
      Inl e \<Rightarrow> False
    | Inr c \<Rightarrow> certificate_number c = ascii ''UNKNOWN-x'' \<and> source_file c = Some (ascii ''x.pdf''))"
proof -
  note t = parse_certificate_unknown_number
      [where raw = text_no_number and pyfloat = decimal_float and now = "()" and
        lab_name = "ascii ''Lab''", OF no_number_search]
  have p: "ascii ''scans/unit7.pdf'' = ascii ''scans/'' @ ascii ''unit7'' @ [46] @ ascii ''pdf''"
    "last (ascii ''scans/'') = 47" "ascii ''unit7'' \<noteq> []" "ascii ''pdf'' \<noteq> []"
    "47 \<notin> set (ascii ''unit7'')" "47 \<notin> set (ascii ''pdf'')" "46 \<notin> set (ascii ''pdf'')"
    "ascii ''UNKNOWN-'' @ ascii ''unit7'' = ascii ''UNKNOWN-unit7''"
    "ascii ''UNKNOWN-'' @ ascii ''x'' = ascii ''UNKNOWN-x''"
    "path_str (ascii ''scans/unit7.pdf'') = ascii ''scans/unit7.pdf''"
    by code_simp+
  have a: "case parse_certificate decimal_float () (ascii ''scans/unit7.pdf'') text_no_number
          (ascii ''Lab'') of
      Inl e \<Rightarrow> False
    | Inr c \<Rightarrow>
        certificate_number c = ascii ''UNKNOWN-unit7'' \<and>
        source_file c = Some (ascii ''scans/unit7.pdf'') \<and>
        ascii ''Certificate number could not be extracted'' \<in> set (validate_certificate c)"
  proof (cases "parse_certificate decimal_float () (ascii ''scans/unit7.pdf'') text_no_number
          (ascii ''Lab'')")
    case (Inl e)
    with t [where file_path = "ascii ''scans/unit7.pdf''"] show ?thesis by simp
  next
    case (Inr c)
    have c: "\<forall>dir base ext.
                ascii ''scans/unit7.pdf'' = dir @ base @ [46] @ ext \<and> (dir = [] \<or> last dir = 47) \<and>
                base \<noteq> [] \<and> ext \<noteq> [] \<and> 47 \<notin> set base \<and> 47 \<notin> set ext \<and> 46 \<notin> set ext \<longrightarrow>
                certificate_number c = ascii ''UNKNOWN-'' @ base"
      "source_file c = Some (path_str (ascii ''scans/unit7.pdf''))"
      "ascii ''Certificate number could not be extracted'' \<in> set (validate_certificate c)"
      using t [where file_path = "ascii ''scans/unit7.pdf''"] unfolding Inr sum.case by blast+
    from c(1) p(1-7) have "certificate_number c = ascii ''UNKNOWN-'' @ ascii ''unit7''"
      by blast
    with c(2,3) Inr show ?thesis by (simp add: p(8,10))
  qed
  have b: "case parse_certificate decimal_float () (ascii ''scans/unit7.pdf/'') text_no_number
          (ascii ''Lab'') of
      Inl e \<Rightarrow> False
    | Inr c \<Rightarrow>
        certificate_number c = ascii ''UNKNOWN-unit7'' \<and>
        source_file c = Some (ascii ''scans/unit7.pdf'')"
    using t [where file_path = "ascii ''scans/unit7.pdf/''"]
    by (simp add: stem_examples source_file_examples p(8) split: sum.splits)
  have c: "case parse_certificate decimal_float () (ascii ''x.pdf/.'') text_no_number
          (ascii ''Lab'') of
      Inl e \<Rightarrow> False
    | Inr c \<Rightarrow> certificate_number c = ascii ''UNKNOWN-x'' \<and> source_file c = Some (ascii ''x.pdf'')"
    using t [where file_path = "ascii ''x.pdf/.''"]
    by (simp add: stem_examples source_file_examples p(9) split: sum.splits)
  from a b c show ?thesis by blast
qed

end
